theory Spec2Isabelle
  imports Main "HOL-Library.Word"
begin

section \<open>Type descriptors\<close>

text \<open>
  The native methods of \<^verbatim>\<open>java_lang_System.cc\<close> and \<^verbatim>\<open>java_lang_reflect_Array.cc\<close>
  work on \<^verbatim>\<open>jint\<close> arguments (32-bit two's complement) and on handles to heap objects.
  A handle is either \<^verbatim>\<open>nullptr\<close> or the address of an object.
\<close>

type_synonym jint = "32 word"
type_synonym addr = nat
type_synonym jobject = "addr option"

text \<open>
  Modelled from the spec: the enum \<^verbatim>\<open>Primitive::Type\<close> (libartbase/base/primitive.h) is
  not among the sources. The spec lists the kinds Boolean, Byte, Char, Short, Int, Float,
  Long, Double, Reference and Void; the constants keep the names the source uses for them.
\<close>

datatype PrimitiveType =
    kPrimNot | kPrimBoolean | kPrimByte | kPrimChar | kPrimShort
  | kPrimInt | kPrimLong | kPrimFloat | kPrimDouble | kPrimVoid

text \<open>
  Modelled from the spec: \<^verbatim>\<open>Primitive::ComponentSize\<close> is not among the sources. The spec
  gives 1 byte for Boolean and Byte, 2 for Char and Short, 4 for Int and Float, 8 for Long
  and Double, and leaves Void undefined (0 here). A reference slot is not measured in bytes
  in this model (reference arrays keep a list of slots), so its size is fixed at 4, the width
  of a heap reference.
\<close>

fun ComponentSize :: "PrimitiveType \<Rightarrow> nat" where
  "ComponentSize kPrimVoid = 0"
| "ComponentSize kPrimBoolean = 1"
| "ComponentSize kPrimByte = 1"
| "ComponentSize kPrimChar = 2"
| "ComponentSize kPrimShort = 2"
| "ComponentSize kPrimInt = 4"
| "ComponentSize kPrimFloat = 4"
| "ComponentSize kPrimLong = 8"
| "ComponentSize kPrimDouble = 8"
| "ComponentSize kPrimNot = 4"

text \<open>
  Modelled from the spec: \<^verbatim>\<open>mirror::Class\<close> is not among the sources. A type descriptor
  has a kind and, for the reference kind, a class identity (here the class name); the
  descriptor of an array type is built from the descriptor of its component type. Two
  descriptors are the same class exactly when they are equal as values, which stands for the
  pointer comparison \<^verbatim>\<open>srcComponentType == dstComponentType\<close> of the source. A class
  is primitive when its kind is not the reference kind; only an array class has a component
  type; the pretty-printed name of an array class is that of its component type followed
  by \<^verbatim>\<open>[]\<close>.
\<close>

datatype Class = ScalarClass PrimitiveType string | ArrayClass Class

fun GetPrimitiveType :: "Class \<Rightarrow> PrimitiveType" where
  "GetPrimitiveType (ScalarClass k _) = k"
| "GetPrimitiveType (ArrayClass _) = kPrimNot"

definition IsPrimitive :: "Class \<Rightarrow> bool" where
  "IsPrimitive c = (GetPrimitiveType c \<noteq> kPrimNot)"

fun GetComponentType :: "Class \<Rightarrow> Class option" where
  "GetComponentType (ScalarClass _ _) = None"
| "GetComponentType (ArrayClass c) = Some c"

fun PrettyDescriptor :: "Class \<Rightarrow> string" where
  "PrettyDescriptor (ScalarClass _ name) = name"
| "PrettyDescriptor (ArrayClass c) = PrettyDescriptor c @ ''[]''"

section \<open>Objects and the heap\<close>

text \<open>
  Modelled from the spec: \<^verbatim>\<open>mirror::Object\<close> and \<^verbatim>\<open>mirror::Array\<close> are not among the
  sources. An array object has a component type descriptor, a length and its element
  storage: exactly length times element size bytes for a primitive component type, or
  length reference slots. An object that is not an array is known by its class only.
\<close>

datatype Storage = Bytes "8 word list" | Slots "jobject list"

datatype Object = Instance string | Array Class jint Storage

type_synonym Heap = "addr \<Rightarrow> Object"

fun GetClass :: "Object \<Rightarrow> Class" where
  "GetClass (Instance name) = ScalarClass kPrimNot name"
| "GetClass (Array c _ _) = ArrayClass c"

definition IsArrayInstance :: "Object \<Rightarrow> bool" where
  "IsArrayInstance obj = (GetComponentType (GetClass obj) \<noteq> None)"

fun GetLength :: "Object \<Rightarrow> jint" where
  "GetLength (Array _ n _) = n"
| "GetLength (Instance _) = 0"

definition PrettyTypeOf :: "Object \<Rightarrow> string" where
  "PrettyTypeOf obj = PrettyDescriptor (GetClass obj)"

fun raw_bytes :: "Object \<Rightarrow> 8 word list" where
  "raw_bytes (Array _ _ (Bytes bs)) = bs"
| "raw_bytes _ = []"

fun raw_slots :: "Object \<Rightarrow> jobject list" where
  "raw_slots (Array _ _ (Slots rs)) = rs"
| "raw_slots _ = []"

text \<open>
  The invariant of an array object, as the spec's data model states it: the length is
  non-negative, Void is never a component type, and the storage has exactly the size the
  length and the component type give.
\<close>

fun wf_array :: "Object \<Rightarrow> bool" where
  "wf_array (Array c n (Bytes bs)) =
     (0 \<le> sint n \<and> IsPrimitive c \<and> GetPrimitiveType c \<noteq> kPrimVoid \<and>
      length bs = nat (sint n) * ComponentSize (GetPrimitiveType c))"
| "wf_array (Array c n (Slots rs)) =
     (0 \<le> sint n \<and> \<not> IsPrimitive c \<and> length rs = nat (sint n))"
| "wf_array (Instance _) = False"

section \<open>Errors\<close>

text \<open>
  Every exception the native methods raise, with the arguments the source passes to the
  message format, and the fatal abort of \<^verbatim>\<open>LOG(FATAL)\<close>. The three messages of
  \<^verbatim>\<open>ArrayStoreException\<close> are kept apart.
\<close>

datatype ArrayStoreMessage =
    NotAnArray string string
  | IncompatibleTypes string string
  | CannotBeStored string

datatype error =
    NullPointerException string
  | ArrayStoreException ArrayStoreMessage
  | ArrayIndexOutOfBoundsException jint jint jint jint jint
  | NegativeArraySizeException jint
  | Fatal string

section \<open>Copy primitives of the array object model\<close>

text \<open>
  Modelled from the spec: the primitive array classes of mirror/array.h, at which the source
  instantiates \<^verbatim>\<open>Memmove\<close>, are not among the sources. \<open>sizeof_T\<close> is the size of their
  element type, which the spec gives per kind: 1 byte for Boolean and Byte, 2 for Char and
  Short, 4 for Int and Float, 8 for Long and Double.
\<close>

datatype PrimitiveArray =
    BooleanArray | ByteArray | CharArray | ShortArray
  | IntArray | LongArray | FloatArray | DoubleArray

fun sizeof_T :: "PrimitiveArray \<Rightarrow> nat" where
  "sizeof_T BooleanArray = 1"
| "sizeof_T ByteArray = 1"
| "sizeof_T CharArray = 2"
| "sizeof_T ShortArray = 2"
| "sizeof_T IntArray = 4"
| "sizeof_T FloatArray = 4"
| "sizeof_T LongArray = 8"
| "sizeof_T DoubleArray = 8"

text \<open>
  Modelled from the spec: access to the element storage of an array (mirror/array.h) is not
  among the sources. Storing a run of bytes, or of slots, at an offset replaces as many
  bytes or slots from the offset on and leaves the rest of the storage as it is.
\<close>

fun write_bytes :: "Object \<Rightarrow> nat \<Rightarrow> 8 word list \<Rightarrow> Object" where
  "write_bytes (Array c n (Bytes bs)) off tmp =
     Array c n (Bytes (take off bs @ tmp @ drop (off + length tmp) bs))"
| "write_bytes obj _ _ = obj"

fun write_slots :: "Object \<Rightarrow> nat \<Rightarrow> jobject list \<Rightarrow> Object" where
  "write_slots (Array c n (Slots rs)) off tmp =
     Array c n (Slots (take off rs @ tmp @ drop (off + length tmp) rs))"
| "write_slots obj _ _ = obj"

text \<open>
  Modelled from the spec: \<^verbatim>\<open>PrimitiveArray<T>::Memmove\<close> (mirror/array-inl.h) is not among
  the sources. The spec describes it as the move primitive selected by element size, an
  overlap-safe bulk move of count elements of size sizeof(T) that behaves as if copying
  through a temporary: the bytes of the source range are read first, then written to the
  destination range. \<open>this\<close> is the destination array. The positions and the count are
  not negative when the primitive is called (a negative value would read as 0 here).
\<close>

definition Memmove ::
  "PrimitiveArray \<Rightarrow> Heap \<Rightarrow> addr \<Rightarrow> jint \<Rightarrow> addr \<Rightarrow> jint \<Rightarrow> jint \<Rightarrow> Heap" where
  "Memmove T h this dst_pos src src_pos count =
     (let sz = sizeof_T T;
          temp = take (nat (sint count) * sz) (drop (nat (sint src_pos) * sz) (raw_bytes (h src)))
      in h(this := write_bytes (h this) (nat (sint dst_pos) * sz) temp))"

text \<open>
  Modelled from the spec: \<^verbatim>\<open>ObjectArray<T>::AssignableMemmove\<close> (mirror/object_array-inl.h)
  is not among the sources. The spec describes a self-assignable bulk move of reference
  slots with no per-element type check, overlap-safe as if copying through a temporary.
\<close>

definition AssignableMemmove ::
  "Heap \<Rightarrow> addr \<Rightarrow> jint \<Rightarrow> addr \<Rightarrow> jint \<Rightarrow> jint \<Rightarrow> Heap" where
  "AssignableMemmove h this dst_pos src src_pos count =
     (let temp = take (nat (sint count)) (drop (nat (sint src_pos)) (raw_slots (h src)))
      in h(this := write_slots (h this) (nat (sint dst_pos)) temp))"

text \<open>
  Modelled from the spec: reading and writing one reference slot of an array (the accessors
  of mirror/object_array.h are not among the sources). A read outside the storage gives
  null and a write outside it does nothing; neither happens within bounds.
\<close>

fun GetSlot :: "Object \<Rightarrow> nat \<Rightarrow> jobject" where
  "GetSlot obj i = (if i < length (raw_slots obj) then raw_slots obj ! i else None)"

fun SetSlot :: "Object \<Rightarrow> nat \<Rightarrow> jobject \<Rightarrow> Object" where
  "SetSlot (Array c n (Slots rs)) i v = Array c n (Slots (rs[i := v]))"
| "SetSlot obj _ _ = obj"

text \<open>
  Modelled from the spec: \<^verbatim>\<open>ObjectArray<T>::AssignableMemcpy\<close> is not among the sources.
  The spec describes a bulk reference copy that does not assume overlap safety: the slots
  are copied one by one in ascending index order, each read from the heap as it then is.
\<close>

fun memcpy_slots :: "Heap \<Rightarrow> addr \<Rightarrow> nat \<Rightarrow> addr \<Rightarrow> nat \<Rightarrow> nat \<Rightarrow> Heap" where
  "memcpy_slots h this d src s 0 = h"
| "memcpy_slots h this d src s (Suc n) =
     memcpy_slots (h(this := SetSlot (h this) d (GetSlot (h src) s))) this (Suc d) src (Suc s) n"

definition AssignableMemcpy ::
  "Heap \<Rightarrow> addr \<Rightarrow> jint \<Rightarrow> addr \<Rightarrow> jint \<Rightarrow> jint \<Rightarrow> Heap" where
  "AssignableMemcpy h this dst_pos src src_pos count =
     memcpy_slots h this (nat (sint dst_pos)) src (nat (sint src_pos)) (nat (sint count))"

text \<open>
  Modelled from the spec: \<^verbatim>\<open>ObjectArray<T>::AssignableCheckingMemcpy\<close> is not among the
  sources. The spec describes the element-wise checked copy: for i from 0 to count - 1,
  copy src[srcPos + i] into dst[dstPos + i] only if the concrete runtime type of that element
  value is assignable to the destination's component type; on the first element that is not,
  stop at once, keep what was copied, and fail with an ArrayStoreException naming the
  element's concrete type. A null slot refers to no object and so has no runtime type that
  could be rejected: it is copied. \<open>IsAssignableFrom\<close> is the type registry's relation.
\<close>

fun checking_memcpy_slots ::
  "(Class \<Rightarrow> Class \<Rightarrow> bool) \<Rightarrow> Class \<Rightarrow> Heap \<Rightarrow> addr \<Rightarrow> nat \<Rightarrow> addr \<Rightarrow> nat \<Rightarrow> nat
     \<Rightarrow> (error + unit) \<times> Heap" where
  "checking_memcpy_slots IsAssignableFrom dst_class h this d src s 0 = (Inr (), h)"
| "checking_memcpy_slots IsAssignableFrom dst_class h this d src s (Suc n) =
     (case GetSlot (h src) s of
        None \<Rightarrow>
          checking_memcpy_slots IsAssignableFrom dst_class
            (h(this := SetSlot (h this) d None)) this (Suc d) src (Suc s) n
      | Some a \<Rightarrow>
          if IsAssignableFrom dst_class (GetClass (h a))
          then checking_memcpy_slots IsAssignableFrom dst_class
                 (h(this := SetSlot (h this) d (Some a))) this (Suc d) src (Suc s) n
          else (Inl (ArrayStoreException (CannotBeStored (PrettyTypeOf (h a)))), h))"

definition AssignableCheckingMemcpy ::
  "(Class \<Rightarrow> Class \<Rightarrow> bool) \<Rightarrow> Heap \<Rightarrow> addr \<Rightarrow> jint \<Rightarrow> addr \<Rightarrow> jint \<Rightarrow> jint
     \<Rightarrow> (error + unit) \<times> Heap" where
  "AssignableCheckingMemcpy IsAssignableFrom h this dst_pos src src_pos count =
     (case GetComponentType (GetClass (h this)) of
        None \<Rightarrow> (Inl (Fatal ''not an array''), h)
      | Some dst_class \<Rightarrow>
          checking_memcpy_slots IsAssignableFrom dst_class h this (nat (sint dst_pos))
            src (nat (sint src_pos)) (nat (sint count)))"

section \<open>The array copy engine: \<^verbatim>\<open>java_lang_System.cc\<close>\<close>

definition ThrowArrayStoreException_NotAnArray :: "string \<Rightarrow> Object \<Rightarrow> error" where
  "ThrowArrayStoreException_NotAnArray identifier array =
     (let actualType = PrettyTypeOf array
      in ArrayStoreException (NotAnArray identifier actualType))"

text \<open>
  \<^verbatim>\<open>System_arraycopy\<close>. The function returns nothing; the model returns the exception
  it leaves pending (or the fatal abort), if any, and the heap as the call leaves it.
  \<open>IsAssignableFrom\<close> is the relation of the type registry, an external collaborator.
  The debug assertions (\<^verbatim>\<open>DCHECK\<close>) of the source are not part of the behaviour.
  The bounds check is on 32-bit values: \<open>GetLength srcArray - count\<close> is the machine
  subtraction, and the comparisons are signed. The \<^verbatim>\<open>switch\<close> has one case for every
  constant of the enum, so its \<^verbatim>\<open>default\<close> label has no counterpart. The component types
  are pointers in the source; they are not null once both objects are known to be arrays,
  and the last branch of the model, which stands for the dereference of a null component
  type, is never taken then.
\<close>

definition System_arraycopy ::
  "(Class \<Rightarrow> Class \<Rightarrow> bool) \<Rightarrow> Heap \<Rightarrow> jobject \<Rightarrow> jint \<Rightarrow> jobject \<Rightarrow> jint \<Rightarrow> jint
     \<Rightarrow> (error + unit) \<times> Heap" where
  "System_arraycopy IsAssignableFrom h javaSrc srcPos javaDst dstPos length' =
    (let count = length' in
     case javaSrc of
       None \<Rightarrow> (Inl (NullPointerException ''src == null''), h)
     | Some src \<Rightarrow>
     (case javaDst of
       None \<Rightarrow> (Inl (NullPointerException ''dst == null''), h)
     | Some dst \<Rightarrow>
     (let srcObject = h src in
      if \<not> IsArrayInstance srcObject
      then (Inl (ThrowArrayStoreException_NotAnArray ''source'' srcObject), h)
      else
     (let dstObject = h dst in
      if \<not> IsArrayInstance dstObject
      then (Inl (ThrowArrayStoreException_NotAnArray ''destination'' dstObject), h)
      else
     (let srcArray = srcObject; dstArray = dstObject in
      if sint srcPos < 0 \<or> sint dstPos < 0 \<or> sint count < 0 \<or>
         sint srcPos > sint (GetLength srcArray - count) \<or>
         sint dstPos > sint (GetLength dstArray - count)
      then (Inl (ArrayIndexOutOfBoundsException
                   (GetLength srcArray) srcPos (GetLength dstArray) dstPos count), h)
      else
     (case (GetComponentType (GetClass dstArray), GetComponentType (GetClass srcArray)) of
        (Some dstComponentType, Some srcComponentType) \<Rightarrow>
         (let dstComponentPrimitiveType = GetPrimitiveType dstComponentType in
          if srcComponentType = dstComponentType
          then (case dstComponentPrimitiveType of
                  kPrimVoid \<Rightarrow>
                    (Inl (Fatal ''Unreachable, cannot have arrays of type void''), h)
                | kPrimBoolean \<Rightarrow> (Inr (), Memmove ByteArray h dst dstPos src srcPos count)
                | kPrimByte \<Rightarrow> (Inr (), Memmove ByteArray h dst dstPos src srcPos count)
                | kPrimChar \<Rightarrow> (Inr (), Memmove ShortArray h dst dstPos src srcPos count)
                | kPrimShort \<Rightarrow> (Inr (), Memmove ShortArray h dst dstPos src srcPos count)
                | kPrimInt \<Rightarrow> (Inr (), Memmove IntArray h dst dstPos src srcPos count)
                | kPrimFloat \<Rightarrow> (Inr (), Memmove IntArray h dst dstPos src srcPos count)
                | kPrimLong \<Rightarrow> (Inr (), Memmove LongArray h dst dstPos src srcPos count)
                | kPrimDouble \<Rightarrow> (Inr (), Memmove LongArray h dst dstPos src srcPos count)
                | kPrimNot \<Rightarrow> (Inr (), AssignableMemmove h dst dstPos src srcPos count))
          else if dstComponentPrimitiveType \<noteq> kPrimNot \<or> IsPrimitive srcComponentType
          then (let srcType = PrettyTypeOf srcArray; dstType = PrettyTypeOf dstArray
                in (Inl (ArrayStoreException (IncompatibleTypes srcType dstType)), h))
          else if IsAssignableFrom dstComponentType srcComponentType
          then (Inr (), AssignableMemcpy h dst dstPos src srcPos count)
          else AssignableCheckingMemcpy IsAssignableFrom h dst dstPos src srcPos count)
      | _ \<Rightarrow> (Inl (Fatal ''null component type''), h)))))))"

text \<open>
  \<^verbatim>\<open>System_arraycopyTUnchecked<T, kPrimType>\<close>: no validation, only debug assertions;
  the handles are decoded and \<^verbatim>\<open>Memmove\<close> of the array type \<open>T\<close> is called. A null
  handle is outside the caller's contract (the source would dereference it); the model
  leaves the heap as it is then.
\<close>

definition System_arraycopyTUnchecked ::
  "PrimitiveArray \<Rightarrow> PrimitiveType \<Rightarrow> Heap \<Rightarrow> jobject \<Rightarrow> jint \<Rightarrow> jobject \<Rightarrow> jint \<Rightarrow> jint \<Rightarrow> Heap" where
  "System_arraycopyTUnchecked T kPrimType h javaSrc srcPos javaDst dstPos count =
     (case (javaSrc, javaDst) of
        (Some src, Some dst) \<Rightarrow> Memmove T h dst dstPos src srcPos count
      | _ \<Rightarrow> h)"

definition System_arraycopyCharUnchecked ::
  "Heap \<Rightarrow> jobject \<Rightarrow> jint \<Rightarrow> jobject \<Rightarrow> jint \<Rightarrow> jint \<Rightarrow> Heap" where
  "System_arraycopyCharUnchecked h javaSrc srcPos javaDst dstPos count =
     System_arraycopyTUnchecked CharArray kPrimChar h javaSrc srcPos javaDst dstPos count"

definition System_arraycopyByteUnchecked ::
  "Heap \<Rightarrow> jobject \<Rightarrow> jint \<Rightarrow> jobject \<Rightarrow> jint \<Rightarrow> jint \<Rightarrow> Heap" where
  "System_arraycopyByteUnchecked h javaSrc srcPos javaDst dstPos count =
     System_arraycopyTUnchecked ByteArray kPrimByte h javaSrc srcPos javaDst dstPos count"

definition System_arraycopyShortUnchecked ::
  "Heap \<Rightarrow> jobject \<Rightarrow> jint \<Rightarrow> jobject \<Rightarrow> jint \<Rightarrow> jint \<Rightarrow> Heap" where
  "System_arraycopyShortUnchecked h javaSrc srcPos javaDst dstPos count =
     System_arraycopyTUnchecked ShortArray kPrimShort h javaSrc srcPos javaDst dstPos count"

definition System_arraycopyIntUnchecked ::
  "Heap \<Rightarrow> jobject \<Rightarrow> jint \<Rightarrow> jobject \<Rightarrow> jint \<Rightarrow> jint \<Rightarrow> Heap" where
  "System_arraycopyIntUnchecked h javaSrc srcPos javaDst dstPos count =
     System_arraycopyTUnchecked IntArray kPrimInt h javaSrc srcPos javaDst dstPos count"

definition System_arraycopyLongUnchecked ::
  "Heap \<Rightarrow> jobject \<Rightarrow> jint \<Rightarrow> jobject \<Rightarrow> jint \<Rightarrow> jint \<Rightarrow> Heap" where
  "System_arraycopyLongUnchecked h javaSrc srcPos javaDst dstPos count =
     System_arraycopyTUnchecked LongArray kPrimLong h javaSrc srcPos javaDst dstPos count"

definition System_arraycopyFloatUnchecked ::
  "Heap \<Rightarrow> jobject \<Rightarrow> jint \<Rightarrow> jobject \<Rightarrow> jint \<Rightarrow> jint \<Rightarrow> Heap" where
  "System_arraycopyFloatUnchecked h javaSrc srcPos javaDst dstPos count =
     System_arraycopyTUnchecked FloatArray kPrimFloat h javaSrc srcPos javaDst dstPos count"

definition System_arraycopyDoubleUnchecked ::
  "Heap \<Rightarrow> jobject \<Rightarrow> jint \<Rightarrow> jobject \<Rightarrow> jint \<Rightarrow> jint \<Rightarrow> Heap" where
  "System_arraycopyDoubleUnchecked h javaSrc srcPos javaDst dstPos count =
     System_arraycopyTUnchecked DoubleArray kPrimDouble h javaSrc srcPos javaDst dstPos count"

definition System_arraycopyBooleanUnchecked ::
  "Heap \<Rightarrow> jobject \<Rightarrow> jint \<Rightarrow> jobject \<Rightarrow> jint \<Rightarrow> jint \<Rightarrow> Heap" where
  "System_arraycopyBooleanUnchecked h javaSrc srcPos javaDst dstPos count =
     System_arraycopyTUnchecked BooleanArray kPrimBoolean h javaSrc srcPos javaDst dstPos count"

text \<open>
  The entry point registered for each primitive kind (the table \<^verbatim>\<open>gMethods\<close>). There
  is none for the reference kind and none for Void.
\<close>

fun CopyUnchecked ::
  "PrimitiveType \<Rightarrow> Heap \<Rightarrow> jobject \<Rightarrow> jint \<Rightarrow> jobject \<Rightarrow> jint \<Rightarrow> jint \<Rightarrow> Heap" where
  "CopyUnchecked kPrimChar = System_arraycopyCharUnchecked"
| "CopyUnchecked kPrimByte = System_arraycopyByteUnchecked"
| "CopyUnchecked kPrimShort = System_arraycopyShortUnchecked"
| "CopyUnchecked kPrimInt = System_arraycopyIntUnchecked"
| "CopyUnchecked kPrimLong = System_arraycopyLongUnchecked"
| "CopyUnchecked kPrimFloat = System_arraycopyFloatUnchecked"
| "CopyUnchecked kPrimDouble = System_arraycopyDoubleUnchecked"
| "CopyUnchecked kPrimBoolean = System_arraycopyBooleanUnchecked"
| "CopyUnchecked _ = (\<lambda>h javaSrc srcPos javaDst dstPos count. h)"

section \<open>The array construction service: \<^verbatim>\<open>java_lang_reflect_Array.cc\<close>\<close>

text \<open>
  \<^verbatim>\<open>Array_createObjectArray\<close>. The class linker (\<^verbatim>\<open>FindArrayClass\<close>) and the heap
  allocator (\<^verbatim>\<open>ObjectArray::Alloc\<close>) are external collaborators: they are parameters,
  each a function on the runtime state \<open>'s\<close> that returns its result, or the exception it
  leaves pending together with a null result. \<^verbatim>\<open>ThrowNegativeArraySizeException(length)\<close>
  raises the exception that carries the requested length.
\<close>

definition Array_createObjectArray ::
  "('s \<Rightarrow> Class \<Rightarrow> (error + Class) \<times> 's) \<Rightarrow> ('s \<Rightarrow> Class \<Rightarrow> jint \<Rightarrow> (error + jobject) \<times> 's)
     \<Rightarrow> 's \<Rightarrow> Class \<Rightarrow> jint \<Rightarrow> (error + jobject) \<times> 's" where
  "Array_createObjectArray FindArrayClass Alloc st javaElementClass length' =
     (if sint length' < 0 then (Inl (NegativeArraySizeException length'), st)
      else
        (case FindArrayClass st javaElementClass of
           (Inl pending, st') \<Rightarrow> (Inl pending, st')
         | (Inr array_class, st') \<Rightarrow>
             (let (new_array, st'') = Alloc st' array_class length'
              in (new_array, st''))))"

section \<open>Notions used to state the properties\<close>

text \<open>
  The bounds condition in the integers, where nothing wraps around: all of
  \<open>srcPos \<ge> 0\<close>, \<open>dstPos \<ge> 0\<close>, \<open>count \<ge> 0\<close>, \<open>srcPos \<le> srcLength - count\<close> and
  \<open>dstPos \<le> dstLength - count\<close>.
\<close>

definition in_bounds :: "Object \<Rightarrow> jint \<Rightarrow> Object \<Rightarrow> jint \<Rightarrow> jint \<Rightarrow> bool" where
  "in_bounds srcArray srcPos dstArray dstPos count =
     (0 \<le> sint srcPos \<and> 0 \<le> sint dstPos \<and> 0 \<le> sint count \<and>
      sint srcPos \<le> sint (GetLength srcArray) - sint count \<and>
      sint dstPos \<le> sint (GetLength dstArray) - sint count)"

text \<open>
  The elements of an array, one by one: a primitive element is the group of bytes it
  occupies (as many as the component size says), a reference element is its slot.
\<close>

datatype Element = PrimitiveValue "8 word list" | Reference jobject

fun chunks :: "nat \<Rightarrow> nat \<Rightarrow> 'a list \<Rightarrow> 'a list list" where
  "chunks 0 sz xs = []"
| "chunks (Suc n) sz xs = take sz xs # chunks n sz (drop sz xs)"

fun elements_of :: "Object \<Rightarrow> Element list" where
  "elements_of (Array c n (Bytes bs)) =
     map PrimitiveValue (chunks (nat (sint n)) (ComponentSize (GetPrimitiveType c)) bs)"
| "elements_of (Array c n (Slots rs)) = map Reference rs"
| "elements_of (Instance _) = []"

text \<open>
  What a copy of \<open>count\<close> elements from position \<open>srcPos\<close> of \<open>src\<close> to position
  \<open>dstPos\<close> of \<open>dst\<close> leaves in the destination, on lists of elements.
\<close>

definition bulk_copy :: "'a list \<Rightarrow> nat \<Rightarrow> 'a list \<Rightarrow> nat \<Rightarrow> nat \<Rightarrow> 'a list" where
  "bulk_copy src srcPos dst dstPos count =
     take dstPos dst @ take count (drop srcPos src) @ drop (dstPos + count) dst"

text \<open>
  Copying within one array through an independent temporary buffer, in the spec's words:
  the \<open>count\<close> elements from \<open>srcPos\<close> are first copied out into the buffer, and the
  buffer is then stored element by element from \<open>dstPos\<close> on.
\<close>

fun store_from :: "'a list \<Rightarrow> nat \<Rightarrow> 'a list \<Rightarrow> 'a list" where
  "store_from a pos [] = a"
| "store_from a pos (x # buffer) = store_from (a[pos := x]) (Suc pos) buffer"

definition copy_through_temporary :: "'a list \<Rightarrow> nat \<Rightarrow> nat \<Rightarrow> nat \<Rightarrow> 'a list" where
  "copy_through_temporary a srcPos dstPos count =
     (let buffer = take count (drop srcPos a) in store_from a dstPos buffer)"

text \<open>
  Whether the checked copy stores a slot value into an array of component type
  \<open>dst_class\<close>: null always, an object when its class is assignable.
\<close>

fun storable :: "(Class \<Rightarrow> Class \<Rightarrow> bool) \<Rightarrow> Class \<Rightarrow> Heap \<Rightarrow> jobject \<Rightarrow> bool" where
  "storable IsAssignableFrom dst_class h None = True"
| "storable IsAssignableFrom dst_class h (Some a) = IsAssignableFrom dst_class (GetClass (h a))"

section \<open>A small heap for concrete runs\<close>

text \<open>
  Classes \<open>Object\<close>, \<open>Number\<close>, \<open>Integer\<close> and \<open>String\<close> with the assignability of the
  Java class hierarchy among them, and a heap that holds the arrays of the spec's examples:
  the byte array \<open>{1,2,3,4,5}\<close>, an int array, the \<open>Object[]\<close> holding \<open>1, 2, "x", 3\<close>, an
  empty \<open>Number[]\<close> of length 4, an \<open>Integer[]\<close> and an \<open>Object[]\<close> of length 2.
\<close>

definition ObjectC :: Class where "ObjectC = ScalarClass kPrimNot ''java.lang.Object''"
definition NumberC :: Class where "NumberC = ScalarClass kPrimNot ''java.lang.Number''"
definition IntegerC :: Class where "IntegerC = ScalarClass kPrimNot ''java.lang.Integer''"
definition StringC :: Class where "StringC = ScalarClass kPrimNot ''java.lang.String''"
definition byteC :: Class where "byteC = ScalarClass kPrimByte ''byte''"
definition intC :: Class where "intC = ScalarClass kPrimInt ''int''"

definition ex_assignable :: "Class \<Rightarrow> Class \<Rightarrow> bool" where
  "ex_assignable d s =
     (d = s \<or> (d = ObjectC \<and> \<not> IsPrimitive s) \<or> (d = NumberC \<and> s = IntegerC))"

definition ex_heap :: Heap where
  "ex_heap = (\<lambda>_. Instance ''java.lang.Object'')
     (21 := Array byteC 5 (Bytes [1, 2, 3, 4, 5]),
      22 := Array intC 2 (Bytes [1, 0, 0, 0, 2, 0, 0, 0]),
      23 := Array ObjectC 4 (Slots [Some 10, Some 11, Some 12, Some 13]),
      24 := Array NumberC 4 (Slots [None, None, None, None]),
      25 := Array IntegerC 2 (Slots [Some 10, Some 11]),
      26 := Array ObjectC 2 (Slots [None, Some 12]),
      27 := Array byteC 3 (Bytes [7, 8, 9]),
      10 := Instance ''java.lang.Integer'',
      11 := Instance ''java.lang.Integer'',
      12 := Instance ''java.lang.String'',
      13 := Instance ''java.lang.Integer'')"

text \<open>
  Collaborators for a concrete run of the construction service: the runtime state counts
  the type-registry resolutions and the allocations made so far.
\<close>

definition ex_FindArrayClass :: "nat \<times> nat \<Rightarrow> Class \<Rightarrow> (error + Class) \<times> (nat \<times> nat)" where
  "ex_FindArrayClass st c = (Inr (ArrayClass c), (Suc (fst st), snd st))"

definition ex_Alloc :: "nat \<times> nat \<Rightarrow> Class \<Rightarrow> jint \<Rightarrow> (error + jobject) \<times> (nat \<times> nat)" where
  "ex_Alloc st c n = (Inr (Some 20), (fst st, Suc (snd st)))"

section \<open>The bounds check on 32-bit values\<close>

text \<open>
  The source subtracts before it compares: \<open>srcPos > length - count\<close>. With a length and a
  count that are not negative the machine subtraction cannot wrap, so the check decides
  the condition in the integers.
\<close>

lemma sint_diff_no_overflow:
  fixes n c :: jint
  assumes "0 \<le> sint n" "0 \<le> sint c"
  shows "sint (n - c) = sint n - sint c"
proof -
  have "sint n < 2 ^ 31" "sint c < 2 ^ 31"
    using sint_lt [of n] sint_lt [of c] by simp_all
  with assms have "- (2 ^ 31) \<le> sint n - sint c" "sint n - sint c < 2 ^ 31"
    by simp_all
  then have "signed_take_bit 31 (sint n - sint c) = sint n - sint c"
    by (rule signed_take_bit_int_eq_self)
  then show ?thesis by (simp add: sint_word_diff)
qed

lemma bounds_check_iff:
  assumes "0 \<le> sint (GetLength srcArray)" "0 \<le> sint (GetLength dstArray)"
  shows "(sint srcPos < 0 \<or> sint dstPos < 0 \<or> sint count < 0 \<or>
          sint srcPos > sint (GetLength srcArray - count) \<or>
          sint dstPos > sint (GetLength dstArray - count))
         \<longleftrightarrow> \<not> in_bounds srcArray srcPos dstArray dstPos count"
proof (cases "0 \<le> sint count")
  case True
  then show ?thesis
    using assms by (auto simp: in_bounds_def sint_diff_no_overflow)
next
  case False
  then show ?thesis by (auto simp: in_bounds_def)
qed

lemma System_arraycopy_out_of_bounds:
  assumes "IsArrayInstance (h src)" "IsArrayInstance (h dst)"
    and "0 \<le> sint (GetLength (h src))" "0 \<le> sint (GetLength (h dst))"
    and "\<not> in_bounds (h src) srcPos (h dst) dstPos count"
  shows "System_arraycopy A h (Some src) srcPos (Some dst) dstPos count =
           (Inl (ArrayIndexOutOfBoundsException
                   (GetLength (h src)) srcPos (GetLength (h dst)) dstPos count), h)"
  using assms bounds_check_iff [where srcArray = "h src" and dstArray = "h dst"
      and srcPos = srcPos and dstPos = dstPos and count = count]
  by (simp add: System_arraycopy_def Let_def)

section \<open>The dispatch of \<^verbatim>\<open>System_arraycopy\<close>, branch by branch\<close>

lemma checking_memcpy_slots_result:
  "fst (checking_memcpy_slots A dc h this d src s n) = Inr () \<or>
   (\<exists>t. fst (checking_memcpy_slots A dc h this d src s n) =
          Inl (ArrayStoreException (CannotBeStored t)))"
  by (induction n arbitrary: h d s) (auto split: option.splits)

lemma validated:
  assumes "GetComponentType (GetClass srcArray) = Some sc"
    and "GetComponentType (GetClass dstArray) = Some dc"
    and "0 \<le> sint (GetLength srcArray)" "0 \<le> sint (GetLength dstArray)"
    and "in_bounds srcArray srcPos dstArray dstPos count"
  shows "IsArrayInstance srcArray" "IsArrayInstance dstArray"
    "\<not> (sint srcPos < 0 \<or> sint dstPos < 0 \<or> sint count < 0 \<or>
          sint srcPos > sint (GetLength srcArray - count) \<or>
          sint dstPos > sint (GetLength dstArray - count))"
  using assms bounds_check_iff [where srcArray = srcArray and dstArray = dstArray
      and srcPos = srcPos and dstPos = dstPos and count = count]
  by (simp_all add: IsArrayInstance_def)

lemma System_arraycopy_same_type:
  assumes "GetComponentType (GetClass (h src)) = Some c"
    and "GetComponentType (GetClass (h dst)) = Some c"
    and "0 \<le> sint (GetLength (h src))" "0 \<le> sint (GetLength (h dst))"
    and "in_bounds (h src) srcPos (h dst) dstPos count"
  shows "System_arraycopy A h (Some src) srcPos (Some dst) dstPos count =
    (case GetPrimitiveType c of
       kPrimVoid \<Rightarrow> (Inl (Fatal ''Unreachable, cannot have arrays of type void''), h)
     | kPrimBoolean \<Rightarrow> (Inr (), Memmove ByteArray h dst dstPos src srcPos count)
     | kPrimByte \<Rightarrow> (Inr (), Memmove ByteArray h dst dstPos src srcPos count)
     | kPrimChar \<Rightarrow> (Inr (), Memmove ShortArray h dst dstPos src srcPos count)
     | kPrimShort \<Rightarrow> (Inr (), Memmove ShortArray h dst dstPos src srcPos count)
     | kPrimInt \<Rightarrow> (Inr (), Memmove IntArray h dst dstPos src srcPos count)
     | kPrimFloat \<Rightarrow> (Inr (), Memmove IntArray h dst dstPos src srcPos count)
     | kPrimLong \<Rightarrow> (Inr (), Memmove LongArray h dst dstPos src srcPos count)
     | kPrimDouble \<Rightarrow> (Inr (), Memmove LongArray h dst dstPos src srcPos count)
     | kPrimNot \<Rightarrow> (Inr (), AssignableMemmove h dst dstPos src srcPos count))"
  using assms(1,2) validated [OF assms]
  by (simp add: System_arraycopy_def Let_def)

lemma System_arraycopy_incompatible:
  assumes "GetComponentType (GetClass (h src)) = Some sc"
    and "GetComponentType (GetClass (h dst)) = Some dc"
    and "0 \<le> sint (GetLength (h src))" "0 \<le> sint (GetLength (h dst))"
    and "in_bounds (h src) srcPos (h dst) dstPos count"
    and "sc \<noteq> dc" "GetPrimitiveType dc \<noteq> kPrimNot \<or> IsPrimitive sc"
  shows "System_arraycopy A h (Some src) srcPos (Some dst) dstPos count =
    (Inl (ArrayStoreException
            (IncompatibleTypes (PrettyTypeOf (h src)) (PrettyTypeOf (h dst)))), h)"
  using assms(1,2,6,7) validated [OF assms(1-5)]
  by (simp add: System_arraycopy_def Let_def)

lemma System_arraycopy_assignable:
  assumes "GetComponentType (GetClass (h src)) = Some sc"
    and "GetComponentType (GetClass (h dst)) = Some dc"
    and "0 \<le> sint (GetLength (h src))" "0 \<le> sint (GetLength (h dst))"
    and "in_bounds (h src) srcPos (h dst) dstPos count"
    and "sc \<noteq> dc" "GetPrimitiveType dc = kPrimNot" "\<not> IsPrimitive sc" "A dc sc"
  shows "System_arraycopy A h (Some src) srcPos (Some dst) dstPos count =
    (Inr (), AssignableMemcpy h dst dstPos src srcPos count)"
  using assms(1,2,6-9) validated [OF assms(1-5)]
  by (simp add: System_arraycopy_def Let_def)

lemma System_arraycopy_checking:
  assumes "GetComponentType (GetClass (h src)) = Some sc"
    and "GetComponentType (GetClass (h dst)) = Some dc"
    and "0 \<le> sint (GetLength (h src))" "0 \<le> sint (GetLength (h dst))"
    and "in_bounds (h src) srcPos (h dst) dstPos count"
    and "sc \<noteq> dc" "GetPrimitiveType dc = kPrimNot" "\<not> IsPrimitive sc" "\<not> A dc sc"
  shows "System_arraycopy A h (Some src) srcPos (Some dst) dstPos count =
    AssignableCheckingMemcpy A h dst dstPos src srcPos count"
  using assms(1,2,6-9) validated [OF assms(1-5)]
  by (simp add: System_arraycopy_def Let_def)

lemma IsArrayInstance_component:
  "IsArrayInstance obj \<Longrightarrow> \<exists>c. GetComponentType (GetClass obj) = Some c"
  by (simp add: IsArrayInstance_def)

lemma System_arraycopy_in_bounds_not_AIOOBE:
  assumes "IsArrayInstance (h src)" "IsArrayInstance (h dst)"
    and "0 \<le> sint (GetLength (h src))" "0 \<le> sint (GetLength (h dst))"
    and "in_bounds (h src) srcPos (h dst) dstPos count"
  shows "fst (System_arraycopy A h (Some src) srcPos (Some dst) dstPos count) \<noteq>
           Inl (ArrayIndexOutOfBoundsException n1 p1 n2 p2 c)"
proof -
  obtain sc dc where sc: "GetComponentType (GetClass (h src)) = Some sc"
    and dc: "GetComponentType (GetClass (h dst)) = Some dc"
    using IsArrayInstance_component [OF assms(1)] IsArrayInstance_component [OF assms(2)]
    by auto
  note v = sc dc assms(3-5)
  show ?thesis
  proof (cases "sc = dc")
    case True
    then show ?thesis
      using System_arraycopy_same_type [where h = h and src = src and dst = dst and A = A, OF sc dc [folded True] assms(3-5)]
      by (simp split: PrimitiveType.splits)
  next
    case ne: False
    show ?thesis
    proof (cases "GetPrimitiveType dc \<noteq> kPrimNot \<or> IsPrimitive sc")
      case True
      then show ?thesis
        using System_arraycopy_incompatible [where h = h and src = src and dst = dst and A = A, OF v ne] by simp
    next
      case ng: False
      show ?thesis
      proof (cases "A dc sc")
        case True
        then show ?thesis
          using System_arraycopy_assignable [where h = h and src = src and dst = dst and A = A, OF v ne] ng by simp
      next
        case False
        then have "System_arraycopy A h (Some src) srcPos (Some dst) dstPos count =
            AssignableCheckingMemcpy A h dst dstPos src srcPos count"
          using System_arraycopy_checking [where h = h and src = src and dst = dst and A = A, OF v ne] ng by simp
        then show ?thesis
          using dc checking_memcpy_slots_result
            [of A dc h dst "nat (sint dstPos)" src "nat (sint srcPos)" "nat (sint count)"]
          by (auto simp: AssignableCheckingMemcpy_def)
      qed
    qed
  qed
qed

section \<open>Elements and bulk copies on lists\<close>

lemma length_chunks [simp]: "length (chunks n sz xs) = n"
  by (induction n arbitrary: xs) auto

lemma chunks_append:
  "length xs = k * sz \<Longrightarrow> chunks (k + m) sz (xs @ ys) = chunks k sz xs @ chunks m sz ys"
  by (induction k arbitrary: xs) auto

lemma chunks_take_prefix: "chunks k sz (take (k * sz) xs) = chunks k sz xs"
proof (induction k arbitrary: xs)
  case 0
  show ?case by simp
next
  case (Suc k)
  have "drop sz (take (Suc k * sz) xs) = take (k * sz) (drop sz xs)"
    by (simp add: drop_take)
  with Suc show ?case by (simp add: min_def)
qed

lemma take_chunks: "take k (chunks (k + m) sz xs) = chunks k sz xs"
  by (induction k arbitrary: xs) auto

lemma drop_chunks: "drop k (chunks (k + m) sz xs) = chunks m sz (drop (k * sz) xs)"
  by (induction k arbitrary: xs) (auto simp: add.commute)

lemma chunks_bulk_copy:
  assumes d: "length dbs = n * sz" and s: "length sbs = m * sz"
    and dn: "d + c \<le> n" and sm: "s + c \<le> m"
  shows "chunks n sz (take (d * sz) dbs @ take (c * sz) (drop (s * sz) sbs)
                        @ drop (d * sz + c * sz) dbs)
         = bulk_copy (chunks m sz sbs) s (chunks n sz dbs) d c"
proof -
  define r where "r = n - (d + c)"
  define q where "q = m - (s + c)"
  have n: "n = d + (c + r)" and m: "m = s + (c + q)"
    using dn sm by (simp_all add: r_def q_def)
  have l1: "length (take (d * sz) dbs) = d * sz"
    using d n by (simp add: add_mult_distrib)
  have l2: "length (take (c * sz) (drop (s * sz) sbs)) = c * sz"
    using s m by (simp add: add_mult_distrib)
  have "chunks n sz (take (d * sz) dbs @ take (c * sz) (drop (s * sz) sbs)
                        @ drop (d * sz + c * sz) dbs)
        = chunks d sz (take (d * sz) dbs)
          @ chunks c sz (take (c * sz) (drop (s * sz) sbs))
          @ chunks r sz (drop (d * sz + c * sz) dbs)"
    unfolding n by (simp only: chunks_append [OF l1] chunks_append [OF l2])
  also have "chunks d sz (take (d * sz) dbs) = take d (chunks n sz dbs)"
    unfolding n by (simp only: chunks_take_prefix take_chunks)
  also have "chunks c sz (take (c * sz) (drop (s * sz) sbs))
             = take c (drop s (chunks m sz sbs))"
    unfolding m by (simp only: chunks_take_prefix drop_chunks take_chunks)
  also have "chunks r sz (drop (d * sz + c * sz) dbs) = drop (d + c) (chunks n sz dbs)"
  proof -
    have "drop (d + c) (chunks ((d + c) + r) sz dbs) = chunks r sz (drop ((d + c) * sz) dbs)"
      by (rule drop_chunks)
    then show ?thesis by (simp add: n add_mult_distrib add.assoc)
  qed
  finally show ?thesis by (simp add: bulk_copy_def)
qed

lemma store_from_eq:
  "pos + length buffer \<le> length a \<Longrightarrow>
     store_from a pos buffer = take pos a @ buffer @ drop (pos + length buffer) a"
proof (induction buffer arbitrary: a pos)
  case Nil
  show ?case by simp
next
  case (Cons x buffer)
  then have p: "pos < length a" by simp
  have "store_from (a[pos := x]) (Suc pos) buffer
        = take (Suc pos) (a[pos := x]) @ buffer
          @ drop (Suc pos + length buffer) (a[pos := x])"
    using Cons.prems by (intro Cons.IH) simp
  also have "take (Suc pos) (a[pos := x]) = take pos a @ [x]"
    using p by (simp add: take_Suc_conv_app_nth)
  also have "drop (Suc pos + length buffer) (a[pos := x]) = drop (Suc pos + length buffer) a"
    by simp
  finally show ?case by simp
qed

lemma copy_through_temporary_eq:
  assumes "srcPos + count \<le> length a" "dstPos + count \<le> length a"
  shows "copy_through_temporary a srcPos dstPos count = bulk_copy a srcPos a dstPos count"
  using assms by (simp add: copy_through_temporary_def bulk_copy_def store_from_eq Let_def)

lemma bulk_copy_length:
  "srcPos + count \<le> length src \<Longrightarrow> dstPos + count \<le> length dst \<Longrightarrow>
     length (bulk_copy src srcPos dst dstPos count) = length dst"
  by (simp add: bulk_copy_def)

lemma bulk_copy_nth:
  assumes "srcPos + count \<le> length src" "dstPos + count \<le> length dst" "i < length dst"
  shows "bulk_copy src srcPos dst dstPos count ! i =
           (if dstPos \<le> i \<and> i < dstPos + count then src ! (srcPos + (i - dstPos))
            else dst ! i)"
  using assms by (auto simp: bulk_copy_def nth_append)

section \<open>The move primitives on well-formed arrays\<close>

lemma in_bounds_nat:
  assumes "in_bounds srcArray srcPos dstArray dstPos count"
  shows "nat (sint srcPos) + nat (sint count) \<le> nat (sint (GetLength srcArray))"
    and "nat (sint dstPos) + nat (sint count) \<le> nat (sint (GetLength dstArray))"
  using assms unfolding in_bounds_def by linarith+

lemma wf_array_component:
  assumes "wf_array obj"
  obtains c where "GetComponentType (GetClass obj) = Some c"
  using assms by (cases obj) auto

lemma wf_array_length: "wf_array obj \<Longrightarrow> 0 \<le> sint (GetLength obj)"
  by (cases obj rule: wf_array.cases) auto

lemma wf_array_primitive:
  assumes "wf_array obj" "GetComponentType (GetClass obj) = Some c" "IsPrimitive c"
  obtains n bs where "obj = Array c n (Bytes bs)"
    and "length bs = nat (sint n) * ComponentSize (GetPrimitiveType c)"
    and "GetPrimitiveType c \<noteq> kPrimVoid"
  using assms by (cases obj rule: wf_array.cases) auto

lemma wf_array_reference:
  assumes "wf_array obj" "GetComponentType (GetClass obj) = Some c" "\<not> IsPrimitive c"
  obtains n rs where "obj = Array c n (Slots rs)" and "length rs = nat (sint n)"
  using assms by (cases obj rule: wf_array.cases) auto

lemma Memmove_frame: "x \<noteq> this \<Longrightarrow> Memmove T h this dst_pos src src_pos count x = h x"
  by (simp add: Memmove_def Let_def)

lemma Memmove_sizeof:
  "sizeof_T T = sizeof_T T' \<Longrightarrow>
     Memmove T h this dst_pos src src_pos count = Memmove T' h this dst_pos src src_pos count"
  by (simp add: Memmove_def)

lemma Memmove_target:
  assumes wd: "wf_array (h this)" and ws: "wf_array (h src)"
    and cd: "GetComponentType (GetClass (h this)) = Some c"
    and cs: "GetComponentType (GetClass (h src)) = Some c"
    and p: "IsPrimitive c" and sz: "sizeof_T T = ComponentSize (GetPrimitiveType c)"
    and b: "in_bounds (h src) src_pos (h this) dst_pos count"
  shows "elements_of (Memmove T h this dst_pos src src_pos count this) =
           bulk_copy (elements_of (h src)) (nat (sint src_pos))
             (elements_of (h this)) (nat (sint dst_pos)) (nat (sint count))"
    and "GetClass (Memmove T h this dst_pos src src_pos count this) = GetClass (h this)"
    and "GetLength (Memmove T h this dst_pos src src_pos count this) = GetLength (h this)"
    and "wf_array (Memmove T h this dst_pos src src_pos count this)"
proof -
  obtain n dbs where d: "h this = Array c n (Bytes dbs)"
    and ld: "length dbs = nat (sint n) * ComponentSize (GetPrimitiveType c)"
    and nv: "GetPrimitiveType c \<noteq> kPrimVoid"
    using wf_array_primitive [OF wd cd p] by blast
  obtain m sbs where s: "h src = Array c m (Bytes sbs)"
    and ls: "length sbs = nat (sint m) * ComponentSize (GetPrimitiveType c)"
    using wf_array_primitive [OF ws cs p] by blast
  let ?sz = "ComponentSize (GetPrimitiveType c)"
  let ?s = "nat (sint src_pos)" and ?d = "nat (sint dst_pos)" and ?c = "nat (sint count)"
  have sm: "?s + ?c \<le> nat (sint m)" and dn: "?d + ?c \<le> nat (sint n)"
    using in_bounds_nat [OF b] by (simp_all add: d s)
  have lt: "length (take (?c * ?sz) (drop (?s * ?sz) sbs)) = ?c * ?sz"
  proof -
    have "(?s + ?c) * ?sz \<le> nat (sint m) * ?sz"
      using sm by (rule mult_le_mono1)
    then show ?thesis by (simp add: ls add_mult_distrib)
  qed
  have r: "Memmove T h this dst_pos src src_pos count this =
        Array c n (Bytes (take (?d * ?sz) dbs @ take (?c * ?sz) (drop (?s * ?sz) sbs)
                            @ drop (?d * ?sz + ?c * ?sz) dbs))"
    using lt by (simp add: Memmove_def Let_def d s sz)
  show "elements_of (Memmove T h this dst_pos src src_pos count this) =
           bulk_copy (elements_of (h src)) ?s (elements_of (h this)) ?d ?c"
    unfolding r
    by (simp add: d s chunks_bulk_copy [OF ld ls dn sm] bulk_copy_def
        take_map drop_map)
  show "GetClass (Memmove T h this dst_pos src src_pos count this) = GetClass (h this)"
    and "GetLength (Memmove T h this dst_pos src src_pos count this) = GetLength (h this)"
    unfolding r by (simp_all add: d)
  have "(?d + ?c) * ?sz \<le> nat (sint n) * ?sz"
    using dn by (rule mult_le_mono1)
  moreover have "?d * ?sz \<le> nat (sint n) * ?sz"
    using dn by (intro mult_le_mono1) simp
  ultimately have "length (take (?d * ?sz) dbs @ take (?c * ?sz) (drop (?s * ?sz) sbs)
                            @ drop (?d * ?sz + ?c * ?sz) dbs) = nat (sint n) * ?sz"
    using lt by (simp add: ld add_mult_distrib)
  then show "wf_array (Memmove T h this dst_pos src src_pos count this)"
    unfolding r using wd p nv by (simp add: d)
qed

lemma AssignableMemmove_frame:
  "x \<noteq> this \<Longrightarrow> AssignableMemmove h this dst_pos src src_pos count x = h x"
  by (simp add: AssignableMemmove_def Let_def)

lemma AssignableMemmove_target:
  assumes wd: "wf_array (h this)" and ws: "wf_array (h src)"
    and cd: "GetComponentType (GetClass (h this)) = Some c"
    and cs: "GetComponentType (GetClass (h src)) = Some c'"
    and p: "\<not> IsPrimitive c" "\<not> IsPrimitive c'"
    and b: "in_bounds (h src) src_pos (h this) dst_pos count"
  shows "elements_of (AssignableMemmove h this dst_pos src src_pos count this) =
           bulk_copy (elements_of (h src)) (nat (sint src_pos))
             (elements_of (h this)) (nat (sint dst_pos)) (nat (sint count))"
    and "GetClass (AssignableMemmove h this dst_pos src src_pos count this) = GetClass (h this)"
    and "GetLength (AssignableMemmove h this dst_pos src src_pos count this) = GetLength (h this)"
    and "wf_array (AssignableMemmove h this dst_pos src src_pos count this)"
proof -
  obtain n drs where d: "h this = Array c n (Slots drs)" and ld: "length drs = nat (sint n)"
    using wf_array_reference [OF wd cd p(1)] by blast
  obtain m srs where s: "h src = Array c' m (Slots srs)" and ls: "length srs = nat (sint m)"
    using wf_array_reference [OF ws cs p(2)] by blast
  let ?s = "nat (sint src_pos)" and ?d = "nat (sint dst_pos)" and ?c = "nat (sint count)"
  have sm: "?s + ?c \<le> nat (sint m)" and dn: "?d + ?c \<le> nat (sint n)"
    using in_bounds_nat [OF b] by (simp_all add: d s)
  have lt: "length (take ?c (drop ?s srs)) = ?c"
    using sm by (simp add: ls)
  have r: "AssignableMemmove h this dst_pos src src_pos count this =
        Array c n (Slots (take ?d drs @ take ?c (drop ?s srs) @ drop (?d + ?c) drs))"
    using lt by (simp add: AssignableMemmove_def Let_def d s)
  show "elements_of (AssignableMemmove h this dst_pos src src_pos count this) =
           bulk_copy (elements_of (h src)) ?s (elements_of (h this)) ?d ?c"
    unfolding r by (simp add: d s bulk_copy_def take_map drop_map)
  show "GetClass (AssignableMemmove h this dst_pos src src_pos count this) = GetClass (h this)"
    and "GetLength (AssignableMemmove h this dst_pos src src_pos count this) = GetLength (h this)"
    unfolding r by (simp_all add: d)
  show "wf_array (AssignableMemmove h this dst_pos src src_pos count this)"
    unfolding r using wd p dn lt by (simp add: d ld)
qed

section \<open>The copy loops\<close>

lemma GetClass_SetSlot [simp]: "GetClass (SetSlot obj i v) = GetClass obj"
  by (cases "(obj, i, v)" rule: SetSlot.cases) auto

lemma memcpy_slots_frame: "x \<noteq> this \<Longrightarrow> memcpy_slots h this d src s n x = h x"
  by (induction n arbitrary: h d s) auto

lemma memcpy_slots_this:
  assumes "h this = Array c m (Slots rs)" "this \<noteq> src" "s + n \<le> length (raw_slots (h src))"
  shows "memcpy_slots h this d src s n this =
           Array c m (Slots (store_from rs d (take n (drop s (raw_slots (h src))))))"
  using assms
proof (induction n arbitrary: h d s rs)
  case 0
  then show ?case by simp
next
  case (Suc n)
  let ?ss = "raw_slots (h src)"
  let ?h1 = "h(this := SetSlot (h this) d (GetSlot (h src) s))"
  have s: "s < length ?ss" using Suc.prems(3) by simp
  have t: "take (Suc n) (drop s ?ss) = ?ss ! s # take n (drop (Suc s) ?ss)"
    using s by (metis Cons_nth_drop_Suc take_Suc_Cons)
  have 1: "?h1 this = Array c m (Slots (rs[d := ?ss ! s]))"
    using Suc.prems(1) s by simp
  have 2: "raw_slots (?h1 src) = ?ss"
    using Suc.prems(2) by simp
  have "memcpy_slots ?h1 this (Suc d) src (Suc s) n this =
          Array c m (Slots (store_from (rs[d := ?ss ! s]) (Suc d)
                              (take n (drop (Suc s) (raw_slots (?h1 src))))))"
  proof (rule Suc.IH [where h = ?h1, OF 1 Suc.prems(2)])
    show "Suc s + n \<le> length (raw_slots (?h1 src))"
      using Suc.prems(3) by (simp only: 2)
  qed
  then show ?case by (simp add: t 2 del: fun_upd_apply GetSlot.simps)
qed

lemma checking_memcpy_slots_frame:
  "x \<noteq> this \<Longrightarrow> snd (checking_memcpy_slots A dc h this d src s n) x = h x"
  by (induction n arbitrary: h d s) (auto split: option.splits)

lemma checking_memcpy_slots_success_heap:
  "fst (checking_memcpy_slots A dc h this d src s n) = Inr () \<Longrightarrow>
     snd (checking_memcpy_slots A dc h this d src s n) = memcpy_slots h this d src s n"
  by (induction n arbitrary: h d s) (auto split: option.splits if_splits)

lemma storable_upd [simp]:
  "storable A dc (h(this := SetSlot (h this) d v)) w = storable A dc h w"
  by (cases w) auto

lemma checking_memcpy_slots_all_storable:
  assumes "this \<noteq> src" "\<forall>j<n. storable A dc h (GetSlot (h src) (s + j))"
  shows "checking_memcpy_slots A dc h this d src s n = (Inr (), memcpy_slots h this d src s n)"
  using assms
proof (induction n arbitrary: h d s)
  case 0
  then show ?case by simp
next
  case (Suc n)
  let ?v = "GetSlot (h src) s"
  let ?h1 = "h(this := SetSlot (h this) d ?v)"
  have 0: "storable A dc h ?v" using Suc.prems(2) [rule_format, of 0] by simp
  have src: "?h1 src = h src" using Suc.prems(1) by simp
  have "\<forall>j<n. storable A dc ?h1 (GetSlot (?h1 src) (Suc s + j))"
  proof (intro allI impI)
    fix j assume "j < n"
    then have "storable A dc h (GetSlot (h src) (s + Suc j))"
      using Suc.prems(2) [rule_format, of "Suc j"] by (simp del: GetSlot.simps)
    then show "storable A dc ?h1 (GetSlot (?h1 src) (Suc s + j))"
      by (simp only: src storable_upd) simp
  qed
  then have "checking_memcpy_slots A dc ?h1 this (Suc d) src (Suc s) n =
               (Inr (), memcpy_slots ?h1 this (Suc d) src (Suc s) n)"
    by (rule Suc.IH [OF Suc.prems(1)])
  then show ?case
    using 0 by (cases ?v) (simp_all del: GetSlot.simps fun_upd_apply)
qed

lemma checking_memcpy_slots_first_failure:
  assumes "this \<noteq> src" "k < n" "\<forall>j<k. storable A dc h (GetSlot (h src) (s + j))"
    and "GetSlot (h src) (s + k) = Some a" "\<not> A dc (GetClass (h a))"
  shows "checking_memcpy_slots A dc h this d src s n =
           (Inl (ArrayStoreException (CannotBeStored (PrettyTypeOf (h a)))),
            memcpy_slots h this d src s k)"
  using assms
proof (induction k arbitrary: h d s n)
  case 0
  then obtain n' where "n = Suc n'" by (cases n) auto
  then show ?case using 0 by (simp del: GetSlot.simps)
next
  case (Suc k)
  then obtain n' where n: "n = Suc n'" and kn: "k < n'" by (cases n) auto
  let ?v = "GetSlot (h src) s"
  let ?h1 = "h(this := SetSlot (h this) d ?v)"
  have 0: "storable A dc h ?v" using Suc.prems(3) [rule_format, of 0] by simp
  have src: "?h1 src = h src" using Suc.prems(1) by simp
  have cls: "GetClass (?h1 a) = GetClass (h a)" by simp
  have all: "\<forall>j<k. storable A dc ?h1 (GetSlot (?h1 src) (Suc s + j))"
  proof (intro allI impI)
    fix j assume "j < k"
    then have "storable A dc h (GetSlot (h src) (s + Suc j))"
      using Suc.prems(3) [rule_format, of "Suc j"] by (simp del: GetSlot.simps)
    then show "storable A dc ?h1 (GetSlot (?h1 src) (Suc s + j))"
      by (simp only: src storable_upd) simp
  qed
  have g: "GetSlot (?h1 src) (Suc s + k) = Some a"
    using Suc.prems(4) by (simp only: src) simp
  have na: "\<not> A dc (GetClass (?h1 a))"
    using Suc.prems(5) cls by metis
  have "checking_memcpy_slots A dc ?h1 this (Suc d) src (Suc s) n' =
          (Inl (ArrayStoreException (CannotBeStored (PrettyTypeOf (?h1 a)))),
           memcpy_slots ?h1 this (Suc d) src (Suc s) k)"
    by (rule Suc.IH [OF Suc.prems(1) kn all g na])
  moreover have "PrettyTypeOf (?h1 a) = PrettyTypeOf (h a)"
    unfolding PrettyTypeOf_def by (simp only: cls)
  ultimately show ?case
    using 0 by (cases ?v) (simp_all add: n del: GetSlot.simps fun_upd_apply)
qed

section \<open>What each branch leaves in the destination\<close>

lemma length_elements_of:
  "wf_array obj \<Longrightarrow> length (elements_of obj) = nat (sint (GetLength obj))"
  by (cases obj rule: wf_array.cases) auto

lemma write_bytes_nothing [simp]: "write_bytes obj off [] = obj"
  by (cases "(obj, off, [] :: 8 word list)" rule: write_bytes.cases) auto

lemma write_slots_nothing [simp]: "write_slots obj off [] = obj"
  by (cases "(obj, off, [] :: jobject list)" rule: write_slots.cases) auto

lemma Memmove_zero: "Memmove T h this dst_pos src src_pos 0 = h"
  by (simp add: Memmove_def)

lemma AssignableMemmove_zero: "AssignableMemmove h this dst_pos src src_pos 0 = h"
  by (simp add: AssignableMemmove_def)

lemma AssignableMemcpy_zero: "AssignableMemcpy h this dst_pos src src_pos 0 = h"
  by (simp add: AssignableMemcpy_def)

lemma AssignableCheckingMemcpy_zero:
  "GetComponentType (GetClass (h this)) = Some dc \<Longrightarrow>
     AssignableCheckingMemcpy A h this dst_pos src src_pos 0 = (Inr (), h)"
  by (simp add: AssignableCheckingMemcpy_def)

lemma same_type_primitive:
  assumes "GetComponentType (GetClass (h src)) = Some c"
    and "GetComponentType (GetClass (h dst)) = Some c"
    and "0 \<le> sint (GetLength (h src))" "0 \<le> sint (GetLength (h dst))"
    and "in_bounds (h src) srcPos (h dst) dstPos count"
    and "IsPrimitive c" "GetPrimitiveType c \<noteq> kPrimVoid"
  shows "\<exists>T. sizeof_T T = ComponentSize (GetPrimitiveType c) \<and>
           System_arraycopy A h (Some src) srcPos (Some dst) dstPos count =
             (Inr (), Memmove T h dst dstPos src srcPos count)"
proof -
  note R = System_arraycopy_same_type
    [where h = h and src = src and dst = dst and A = A, OF assms(1-5)]
  show ?thesis
  proof (cases "GetPrimitiveType c")
    case kPrimNot
    with assms(6) show ?thesis by (simp add: IsPrimitive_def)
  next
    case kPrimBoolean
    with R show ?thesis by (intro exI [of _ ByteArray]) simp
  next
    case kPrimByte
    with R show ?thesis by (intro exI [of _ ByteArray]) simp
  next
    case kPrimChar
    with R show ?thesis by (intro exI [of _ ShortArray]) simp
  next
    case kPrimShort
    with R show ?thesis by (intro exI [of _ ShortArray]) simp
  next
    case kPrimInt
    with R show ?thesis by (intro exI [of _ IntArray]) simp
  next
    case kPrimLong
    with R show ?thesis by (intro exI [of _ LongArray]) simp
  next
    case kPrimFloat
    with R show ?thesis by (intro exI [of _ IntArray]) simp
  next
    case kPrimDouble
    with R show ?thesis by (intro exI [of _ LongArray]) simp
  next
    case kPrimVoid
    with assms(7) show ?thesis by simp
  qed
qed

lemma same_type_reference:
  assumes "GetComponentType (GetClass (h src)) = Some c"
    and "GetComponentType (GetClass (h dst)) = Some c"
    and "0 \<le> sint (GetLength (h src))" "0 \<le> sint (GetLength (h dst))"
    and "in_bounds (h src) srcPos (h dst) dstPos count"
    and "\<not> IsPrimitive c"
  shows "System_arraycopy A h (Some src) srcPos (Some dst) dstPos count =
           (Inr (), AssignableMemmove h dst dstPos src srcPos count)"
  using System_arraycopy_same_type
    [where h = h and src = src and dst = dst and A = A, OF assms(1-5)] assms(6)
  by (simp add: IsPrimitive_def)

lemma wf_array_not_void:
  "wf_array obj \<Longrightarrow> GetComponentType (GetClass obj) = Some c \<Longrightarrow> GetPrimitiveType c \<noteq> kPrimVoid"
  by (cases obj rule: wf_array.cases) (auto simp: IsPrimitive_def)

lemma same_type_result:
  assumes ws: "wf_array (h src)" and wd: "wf_array (h dst)"
    and cs: "GetComponentType (GetClass (h src)) = Some c"
    and cd: "GetComponentType (GetClass (h dst)) = Some c"
    and b: "in_bounds (h src) srcPos (h dst) dstPos count"
  shows "fst (System_arraycopy A h (Some src) srcPos (Some dst) dstPos count) = Inr ()"
    and "\<And>x. x \<noteq> dst \<Longrightarrow>
           snd (System_arraycopy A h (Some src) srcPos (Some dst) dstPos count) x = h x"
    and "elements_of (snd (System_arraycopy A h (Some src) srcPos (Some dst) dstPos count) dst)
         = bulk_copy (elements_of (h src)) (nat (sint srcPos))
             (elements_of (h dst)) (nat (sint dstPos)) (nat (sint count))"
    and "wf_array (snd (System_arraycopy A h (Some src) srcPos (Some dst) dstPos count) dst)"
    and "GetClass (snd (System_arraycopy A h (Some src) srcPos (Some dst) dstPos count) dst)
         = GetClass (h dst)"
proof -
  note l = wf_array_length [OF ws] wf_array_length [OF wd]
  let ?R = "System_arraycopy A h (Some src) srcPos (Some dst) dstPos count"
  have "fst ?R = Inr () \<and> (\<forall>x. x \<noteq> dst \<longrightarrow> snd ?R x = h x) \<and>
        elements_of (snd ?R dst) = bulk_copy (elements_of (h src)) (nat (sint srcPos))
             (elements_of (h dst)) (nat (sint dstPos)) (nat (sint count)) \<and>
        wf_array (snd ?R dst) \<and> GetClass (snd ?R dst) = GetClass (h dst)"
  proof (cases "IsPrimitive c")
    case True
    obtain T where sz: "sizeof_T T = ComponentSize (GetPrimitiveType c)"
      and R: "?R = (Inr (), Memmove T h dst dstPos src srcPos count)"
      using same_type_primitive [where h = h and src = src and dst = dst and A = A,
          OF cs cd l b True wf_array_not_void [OF wd cd]] by blast
    show ?thesis
      unfolding R
      using Memmove_target [where h = h and this = dst and src = src, OF wd ws cd cs True sz b]
      by (simp add: Memmove_frame)
  next
    case False
    have R: "?R = (Inr (), AssignableMemmove h dst dstPos src srcPos count)"
      using same_type_reference [where h = h and src = src and dst = dst and A = A,
          OF cs cd l b False] .
    show ?thesis
      unfolding R
      using AssignableMemmove_target
        [where h = h and this = dst and src = src, OF wd ws cd cs False False b]
      by (simp add: AssignableMemmove_frame)
  qed
  then show "fst ?R = Inr ()" "\<And>x. x \<noteq> dst \<Longrightarrow> snd ?R x = h x"
    "elements_of (snd ?R dst) = bulk_copy (elements_of (h src)) (nat (sint srcPos))
             (elements_of (h dst)) (nat (sint dstPos)) (nat (sint count))"
    "wf_array (snd ?R dst)" "GetClass (snd ?R dst) = GetClass (h dst)"
    by simp_all
qed

lemma memcpy_slots_target:
  assumes wd: "wf_array (h this)" and ws: "wf_array (h src)"
    and cd: "GetComponentType (GetClass (h this)) = Some dc"
    and cs: "GetComponentType (GetClass (h src)) = Some sc"
    and p: "\<not> IsPrimitive dc" "\<not> IsPrimitive sc"
    and ne: "this \<noteq> src"
    and sk: "s + k \<le> nat (sint (GetLength (h src)))"
    and dk: "d + k \<le> nat (sint (GetLength (h this)))"
  shows "elements_of (memcpy_slots h this d src s k this) =
           bulk_copy (elements_of (h src)) s (elements_of (h this)) d k"
    and "wf_array (memcpy_slots h this d src s k this)"
    and "GetClass (memcpy_slots h this d src s k this) = GetClass (h this)"
proof -
  obtain n drs where d: "h this = Array dc n (Slots drs)" and ld: "length drs = nat (sint n)"
    using wf_array_reference [OF wd cd p(1)] by blast
  obtain m srs where s: "h src = Array sc m (Slots srs)" and ls: "length srs = nat (sint m)"
    using wf_array_reference [OF ws cs p(2)] by blast
  have sk': "s + k \<le> length (raw_slots (h src))" using sk by (simp add: s ls)
  have lt: "length (take k (drop s srs)) = k" using sk by (simp add: s ls)
  have "d + length (take k (drop s srs)) \<le> length drs"
    using dk by (simp only: lt) (simp add: d ld)
  then have r: "memcpy_slots h this d src s k this =
      Array dc n (Slots (take d drs @ take k (drop s srs) @ drop (d + k) drs))"
    using memcpy_slots_this [OF d ne sk', of d] lt by (simp add: store_from_eq s)
  show "elements_of (memcpy_slots h this d src s k this) =
           bulk_copy (elements_of (h src)) s (elements_of (h this)) d k"
    unfolding r by (simp add: d s bulk_copy_def take_map drop_map)
  show "wf_array (memcpy_slots h this d src s k this)"
    unfolding r using wd dk lt by (simp add: d ld)
  show "GetClass (memcpy_slots h this d src s k this) = GetClass (h this)"
    unfolding r by (simp add: d)
qed

lemma distinct_component_types:
  "GetComponentType (GetClass (h src)) = Some sc \<Longrightarrow>
   GetComponentType (GetClass (h dst)) = Some dc \<Longrightarrow> sc \<noteq> dc \<Longrightarrow> dst \<noteq> src"
  by auto

lemma GetSlot_elements_of:
  assumes "wf_array obj" "GetComponentType (GetClass obj) = Some c" "\<not> IsPrimitive c"
    and "i < nat (sint (GetLength obj))"
  shows "elements_of obj ! i = Reference (GetSlot obj i)"
proof -
  obtain n rs where "obj = Array c n (Slots rs)" "length rs = nat (sint n)"
    using wf_array_reference [OF assms(1-3)] by blast
  then show ?thesis using assms(4) by simp
qed

lemma CopyUnchecked_Memmove:
  assumes "k \<noteq> kPrimNot" "k \<noteq> kPrimVoid"
  shows "\<exists>T. sizeof_T T = ComponentSize k \<and>
           CopyUnchecked k h (Some src) srcPos (Some dst) dstPos count =
             Memmove T h dst dstPos src srcPos count"
proof (cases k)
  case kPrimNot
  with assms show ?thesis by simp
next
  case kPrimBoolean
  then show ?thesis
    by (intro exI [of _ BooleanArray])
      (simp add: System_arraycopyBooleanUnchecked_def System_arraycopyTUnchecked_def)
next
  case kPrimByte
  then show ?thesis
    by (intro exI [of _ ByteArray])
      (simp add: System_arraycopyByteUnchecked_def System_arraycopyTUnchecked_def)
next
  case kPrimChar
  then show ?thesis
    by (intro exI [of _ CharArray])
      (simp add: System_arraycopyCharUnchecked_def System_arraycopyTUnchecked_def)
next
  case kPrimShort
  then show ?thesis
    by (intro exI [of _ ShortArray])
      (simp add: System_arraycopyShortUnchecked_def System_arraycopyTUnchecked_def)
next
  case kPrimInt
  then show ?thesis
    by (intro exI [of _ IntArray])
      (simp add: System_arraycopyIntUnchecked_def System_arraycopyTUnchecked_def)
next
  case kPrimLong
  then show ?thesis
    by (intro exI [of _ LongArray])
      (simp add: System_arraycopyLongUnchecked_def System_arraycopyTUnchecked_def)
next
  case kPrimFloat
  then show ?thesis
    by (intro exI [of _ FloatArray])
      (simp add: System_arraycopyFloatUnchecked_def System_arraycopyTUnchecked_def)
next
  case kPrimDouble
  then show ?thesis
    by (intro exI [of _ DoubleArray])
      (simp add: System_arraycopyDoubleUnchecked_def System_arraycopyTUnchecked_def)
next
  case kPrimVoid
  with assms show ?thesis by simp
qed

lemma wf_array_IsArrayInstance: "wf_array obj \<Longrightarrow> IsArrayInstance obj"
  by (cases obj rule: wf_array.cases) (auto simp: IsArrayInstance_def)

lemma different_reference_types_result:
  assumes ws: "wf_array (h src)" and wd: "wf_array (h dst)"
    and cs: "GetComponentType (GetClass (h src)) = Some sc"
    and cd: "GetComponentType (GetClass (h dst)) = Some dc"
    and ne: "sc \<noteq> dc" and ps: "\<not> IsPrimitive sc" and pd: "\<not> IsPrimitive dc"
    and b: "in_bounds (h src) srcPos (h dst) dstPos count"
  shows "System_arraycopy A h (Some src) srcPos (Some dst) dstPos count =
           (if A dc sc then (Inr (), AssignableMemcpy h dst dstPos src srcPos count)
            else checking_memcpy_slots A dc h dst (nat (sint dstPos)) src (nat (sint srcPos))
                   (nat (sint count)))"
proof -
  note l = wf_array_length [OF ws] wf_array_length [OF wd]
  have pd': "GetPrimitiveType dc = kPrimNot" using pd by (simp add: IsPrimitive_def)
  show ?thesis
    using System_arraycopy_assignable
      [where h = h and src = src and dst = dst and A = A, OF cs cd l b ne pd' ps]
      System_arraycopy_checking
      [where h = h and src = src and dst = dst and A = A, OF cs cd l b ne pd' ps]
    by (simp add: AssignableCheckingMemcpy_def cd)
qed

lemma successful_copy_result:
  assumes ws: "wf_array (h src)" and wd: "wf_array (h dst)"
    and ok: "fst (System_arraycopy A h (Some src) srcPos (Some dst) dstPos count) = Inr ()"
  shows "in_bounds (h src) srcPos (h dst) dstPos count"
    and "elements_of (snd (System_arraycopy A h (Some src) srcPos (Some dst) dstPos count) dst) =
           bulk_copy (elements_of (h src)) (nat (sint srcPos))
             (elements_of (h dst)) (nat (sint dstPos)) (nat (sint count))"
    and "\<And>x. x \<noteq> dst \<Longrightarrow>
           snd (System_arraycopy A h (Some src) srcPos (Some dst) dstPos count) x = h x"
proof -
  let ?R = "System_arraycopy A h (Some src) srcPos (Some dst) dstPos count"
  let ?s = "nat (sint srcPos)" and ?d = "nat (sint dstPos)" and ?c = "nat (sint count)"
  note l = wf_array_length [OF ws] wf_array_length [OF wd]
  show b: "in_bounds (h src) srcPos (h dst) dstPos count"
  proof (rule ccontr)
    assume "\<not> in_bounds (h src) srcPos (h dst) dstPos count"
    then have "fst ?R \<noteq> Inr ()"
      using System_arraycopy_out_of_bounds [where h = h and src = src and dst = dst and A = A,
          OF wf_array_IsArrayInstance [OF ws] wf_array_IsArrayInstance [OF wd] l]
      by simp
    with ok show False by simp
  qed
  obtain sc where cs: "GetComponentType (GetClass (h src)) = Some sc"
    using wf_array_component [OF ws] by blast
  obtain dc where cd: "GetComponentType (GetClass (h dst)) = Some dc"
    using wf_array_component [OF wd] by blast
  have "elements_of (snd ?R dst) =
          bulk_copy (elements_of (h src)) ?s (elements_of (h dst)) ?d ?c \<and>
        (\<forall>x. x \<noteq> dst \<longrightarrow> snd ?R x = h x)"
  proof (cases "sc = dc")
    case True
    show ?thesis
      using same_type_result(2,3) [where h = h and src = src and dst = dst and A = A,
          OF ws wd cs [unfolded True] cd b]
      by simp
  next
    case ne: False
    then have d: "dst \<noteq> src" using cs cd by auto
    show ?thesis
    proof (cases "GetPrimitiveType dc \<noteq> kPrimNot \<or> IsPrimitive sc")
      case True
      then have "fst ?R \<noteq> Inr ()"
        using System_arraycopy_incompatible
          [where h = h and src = src and dst = dst and A = A, OF cs cd l b ne]
        by simp
      with ok show ?thesis by simp
    next
      case False
      then have ps: "\<not> IsPrimitive sc" and pd: "\<not> IsPrimitive dc"
        by (simp_all add: IsPrimitive_def)
      note D = different_reference_types_result
        [where h = h and src = src and dst = dst and A = A, OF ws wd cs cd ne ps pd b]
      have "snd ?R = memcpy_slots h dst ?d src ?s ?c"
      proof (cases "A dc sc")
        case True
        then show ?thesis using D by (simp add: AssignableMemcpy_def)
      next
        case False
        then have "?R = checking_memcpy_slots A dc h dst ?d src ?s ?c"
          using D by simp
        then show ?thesis
          using ok checking_memcpy_slots_success_heap [of A dc h dst ?d src ?s ?c]
          by simp
      qed
      then show ?thesis
        using memcpy_slots_target(1) [where h = h and this = dst and src = src,
            OF wd ws cd cs pd ps d in_bounds_nat [OF b]]
        by (simp add: memcpy_slots_frame)
    qed
  qed
  then show "elements_of (snd ?R dst) =
          bulk_copy (elements_of (h src)) ?s (elements_of (h dst)) ?d ?c"
    and "\<And>x. x \<noteq> dst \<Longrightarrow> snd ?R x = h x"
    by simp_all
qed

section \<open>Facts about the small heap\<close>

lemmas ex_simps = ex_heap_def byteC_def intC_def ObjectC_def NumberC_def IntegerC_def
  StringC_def ex_assignable_def IsPrimitive_def in_bounds_def PrettyTypeOf_def

lemma ex_wf:
  "wf_array (ex_heap 21)" "wf_array (ex_heap 22)" "wf_array (ex_heap 23)" "wf_array (ex_heap 24)"
  "wf_array (ex_heap 25)" "wf_array (ex_heap 26)" "wf_array (ex_heap 27)"
  by (simp_all add: ex_simps)

lemma ex_component:
  "GetComponentType (GetClass (ex_heap 21)) = Some byteC"
  "GetComponentType (GetClass (ex_heap 22)) = Some intC"
  "GetComponentType (GetClass (ex_heap 23)) = Some ObjectC"
  "GetComponentType (GetClass (ex_heap 24)) = Some NumberC"
  "GetComponentType (GetClass (ex_heap 25)) = Some IntegerC"
  "GetComponentType (GetClass (ex_heap 26)) = Some ObjectC"
  "GetComponentType (GetClass (ex_heap 27)) = Some byteC"
  by (simp_all add: ex_heap_def)

lemma ex_elements:
  "elements_of (ex_heap 21) =
      [PrimitiveValue [1], PrimitiveValue [2], PrimitiveValue [3],
       PrimitiveValue [4], PrimitiveValue [5]]"
  "elements_of (ex_heap 22) = [PrimitiveValue [1, 0, 0, 0], PrimitiveValue [2, 0, 0, 0]]"
  "elements_of (ex_heap 23) =
      [Reference (Some 10), Reference (Some 11), Reference (Some 12), Reference (Some 13)]"
  "elements_of (ex_heap 24) = [Reference None, Reference None, Reference None, Reference None]"
  "elements_of (ex_heap 25) = [Reference (Some 10), Reference (Some 11)]"
  "elements_of (ex_heap 26) = [Reference None, Reference (Some 12)]"
  "elements_of (ex_heap 27) = [PrimitiveValue [7], PrimitiveValue [8], PrimitiveValue [9]]"
  by (simp_all add: ex_heap_def byteC_def intC_def eval_nat_numeral)

lemma ex_nat:
  "nat (sint (0 :: jint)) = 0" "nat (sint (1 :: jint)) = 1"
  "nat (sint (2 :: jint)) = 2" "nat (sint (3 :: jint)) = 3" "nat (sint (4 :: jint)) = 4"
  by simp_all

section \<open>Validation\<close>

text \<open>
  Claim C6. \<^verbatim>\<open>System_arraycopy\<close> validates in a fixed order and touches no memory on a
  failure: a null \<open>src\<close> raises NullPointerException "src == null" whatever the other
  arguments are; otherwise a null \<open>dst\<close> raises NullPointerException "dst == null"; otherwise
  a \<open>src\<close> that is not an array raises the not-an-array ArrayStoreException for "source"
  with the object's actual type; otherwise a \<open>dst\<close> that is not an array raises it for
  "destination"; and the bounds failure is reached only with two non-null arrays. The
  positions and the count are arbitrary in the first four statements, so none of them is
  looked at before.
\<close>

theorem System_arraycopy_validation_order:
  "System_arraycopy A h None srcPos javaDst dstPos count =
     (Inl (NullPointerException ''src == null''), h) \<and>
   System_arraycopy A h (Some src) srcPos None dstPos count =
     (Inl (NullPointerException ''dst == null''), h) \<and>
   (\<not> IsArrayInstance (h src) \<longrightarrow>
      System_arraycopy A h (Some src) srcPos (Some dst) dstPos count =
        (Inl (ArrayStoreException (NotAnArray ''source'' (PrettyTypeOf (h src)))), h)) \<and>
   (IsArrayInstance (h src) \<and> \<not> IsArrayInstance (h dst) \<longrightarrow>
      System_arraycopy A h (Some src) srcPos (Some dst) dstPos count =
        (Inl (ArrayStoreException (NotAnArray ''destination'' (PrettyTypeOf (h dst)))), h)) \<and>
   (fst (System_arraycopy A h javaSrc srcPos javaDst dstPos count) =
      Inl (ArrayIndexOutOfBoundsException n1 p1 n2 p2 c) \<longrightarrow>
      (\<exists>s d. javaSrc = Some s \<and> javaDst = Some d \<and>
         IsArrayInstance (h s) \<and> IsArrayInstance (h d)))"
proof -
  have 5: "\<exists>s d. javaSrc = Some s \<and> javaDst = Some d \<and>
         IsArrayInstance (h s) \<and> IsArrayInstance (h d)"
    if r: "fst (System_arraycopy A h javaSrc srcPos javaDst dstPos count) =
      Inl (ArrayIndexOutOfBoundsException n1 p1 n2 p2 c)"
  proof (cases javaSrc)
    case None
    with r show ?thesis by (simp add: System_arraycopy_def)
  next
    case s: (Some s)
    show ?thesis
    proof (cases javaDst)
      case None
      with r s show ?thesis by (simp add: System_arraycopy_def)
    next
      case d: (Some d)
      have "IsArrayInstance (h s)"
        using r s d
        by (auto simp: System_arraycopy_def ThrowArrayStoreException_NotAnArray_def Let_def
            split: if_splits)
      moreover have "IsArrayInstance (h d)"
        using r s d \<open>IsArrayInstance (h s)\<close>
        by (auto simp: System_arraycopy_def ThrowArrayStoreException_NotAnArray_def Let_def
            split: if_splits)
      ultimately show ?thesis using s d by simp
    qed
  qed
  show ?thesis
    using 5 by (simp add: System_arraycopy_def ThrowArrayStoreException_NotAnArray_def Let_def)
qed

theorem System_arraycopy_validation_order_witness:
  "System_arraycopy ex_assignable ex_heap None (- 1) None 9 9 =
     (Inl (NullPointerException ''src == null''), ex_heap) \<and>
   System_arraycopy ex_assignable ex_heap (Some 0) (- 1) None 9 9 =
     (Inl (NullPointerException ''dst == null''), ex_heap) \<and>
   \<not> IsArrayInstance (ex_heap 0) \<and>
   System_arraycopy ex_assignable ex_heap (Some 0) (- 1) (Some 12) 9 9 =
     (Inl (ArrayStoreException (NotAnArray ''source'' ''java.lang.Object'')), ex_heap) \<and>
   IsArrayInstance (ex_heap 21) \<and> \<not> IsArrayInstance (ex_heap 12) \<and>
   System_arraycopy ex_assignable ex_heap (Some 21) (- 1) (Some 12) 9 9 =
     (Inl (ArrayStoreException (NotAnArray ''destination'' ''java.lang.String'')), ex_heap) \<and>
   fst (System_arraycopy ex_assignable ex_heap (Some 21) (- 1) (Some 22) 9 9) =
     Inl (ArrayIndexOutOfBoundsException 5 (- 1) 2 9 9) \<and>
   IsArrayInstance (ex_heap 22)"
  using System_arraycopy_validation_order
    [where A = ex_assignable and h = ex_heap and srcPos = "- 1" and dstPos = 9 and count = 9
       and javaDst = None and src = 0 and dst = 12 and javaSrc = "Some 21"]
    System_arraycopy_validation_order
    [where A = ex_assignable and h = ex_heap and srcPos = "- 1" and dstPos = 9 and count = 9
       and javaDst = "Some 22" and src = 21 and dst = 12 and javaSrc = "Some 21"
       and ?n1.0 = 5 and ?p1.0 = "- 1" and ?n2.0 = 2 and ?p2.0 = 9 and c = 9]
  by (simp add: ex_heap_def IsArrayInstance_def PrettyTypeOf_def System_arraycopy_def byteC_def intC_def)

text \<open>
  Claim C4. For two non-null arrays (of non-negative length, as every array is),
  \<^verbatim>\<open>System_arraycopy\<close> raises ArrayIndexOutOfBoundsException exactly when one of
  \<open>srcPos \<ge> 0\<close>, \<open>dstPos \<ge> 0\<close>, \<open>count \<ge> 0\<close>, \<open>srcPos \<le> srcLength - count\<close>,
  \<open>dstPos \<le> dstLength - count\<close> fails in the integers; the exception then carries the
  source length, \<open>srcPos\<close>, the destination length, \<open>dstPos\<close> and the count as they were
  passed, and the heap is as before.
\<close>

theorem System_arraycopy_bounds_check:
  assumes "IsArrayInstance (h src)" "IsArrayInstance (h dst)"
    and "0 \<le> sint (GetLength (h src))" "0 \<le> sint (GetLength (h dst))"
  shows "((\<exists>n1 p1 n2 p2 c.
            fst (System_arraycopy A h (Some src) srcPos (Some dst) dstPos count) =
              Inl (ArrayIndexOutOfBoundsException n1 p1 n2 p2 c))
          \<longleftrightarrow> \<not> in_bounds (h src) srcPos (h dst) dstPos count) \<and>
         (\<not> in_bounds (h src) srcPos (h dst) dstPos count \<longrightarrow>
            System_arraycopy A h (Some src) srcPos (Some dst) dstPos count =
              (Inl (ArrayIndexOutOfBoundsException
                      (GetLength (h src)) srcPos (GetLength (h dst)) dstPos count), h))"
  using System_arraycopy_out_of_bounds
      [where h = h and src = src and dst = dst and A = A, OF assms, of srcPos dstPos count]
    System_arraycopy_in_bounds_not_AIOOBE
      [where h = h and src = src and dst = dst and A = A, OF assms, of srcPos dstPos count]
  by (cases "in_bounds (h src) srcPos (h dst) dstPos count") auto

text \<open>
  At \<open>srcPos = 1\<close> and \<open>count = 2147483647\<close> on the byte array of length 5 the call is
  rejected, although the 32-bit sum \<open>srcPos + count\<close> wraps around to a negative value and
  so would pass a check written as \<open>srcPos + count \<le> length\<close>.
\<close>

theorem System_arraycopy_bounds_check_witness:
  "IsArrayInstance (ex_heap 21) \<and> IsArrayInstance (ex_heap 27) \<and>
   0 \<le> sint (GetLength (ex_heap 21)) \<and> 0 \<le> sint (GetLength (ex_heap 27)) \<and>
   \<not> in_bounds (ex_heap 21) 1 (ex_heap 27) 0 2147483647 \<and>
   System_arraycopy ex_assignable ex_heap (Some 21) 1 (Some 27) 0 2147483647 =
     (Inl (ArrayIndexOutOfBoundsException 5 1 3 0 2147483647), ex_heap) \<and>
   sint ((1 :: jint) + 2147483647) \<le> sint (5 :: jint) \<and>
   in_bounds (ex_heap 21) 1 (ex_heap 27) 0 2 \<and>
   (\<forall>n1 p1 n2 p2 c.
      fst (System_arraycopy ex_assignable ex_heap (Some 21) 1 (Some 27) 0 2) \<noteq>
        Inl (ArrayIndexOutOfBoundsException n1 p1 n2 p2 c))"
proof -
  have a: "IsArrayInstance (ex_heap 21)" "IsArrayInstance (ex_heap 27)"
    "0 \<le> sint (GetLength (ex_heap 21))" "0 \<le> sint (GetLength (ex_heap 27))"
    by (simp_all add: ex_heap_def IsArrayInstance_def)
  have b: "\<not> in_bounds (ex_heap 21) 1 (ex_heap 27) 0 2147483647"
    "in_bounds (ex_heap 21) 1 (ex_heap 27) 0 2"
    by (simp_all add: ex_heap_def in_bounds_def)
  have c: "sint ((1 :: jint) + 2147483647) \<le> sint (5 :: jint)"
    by simp
  show ?thesis
    using a b c
      System_arraycopy_bounds_check [where h = ex_heap and src = 21 and dst = 27
        and A = ex_assignable and srcPos = 1 and dstPos = 0 and count = 2147483647, OF a]
      System_arraycopy_bounds_check [where h = ex_heap and src = 21 and dst = 27
        and A = ex_assignable and srcPos = 1 and dstPos = 0 and count = 2, OF a]
    by (simp add: ex_heap_def)
qed

section \<open>Dispatch on the component types\<close>

text \<open>
  Claim C5. After validation, with component types that differ, \<^verbatim>\<open>System_arraycopy\<close>
  raises the ArrayStoreException "Incompatible types" (which reports the pretty-printed
  types of both arrays) exactly when \<open>dstComponentPrimitiveType \<noteq> kPrimNot\<close> or
  \<open>srcComponentType\<close> is primitive; the heap is then unchanged. In particular a
  destination of primitive component type is rejected whatever the source holds, a
  reference-typed source included, and so are two primitive arrays of different element
  types. (The other ArrayStoreException of this function, raised by the checked copy for
  one element, is a different message and is not the one meant here.)
\<close>

theorem System_arraycopy_incompatible_gate:
  assumes cs: "GetComponentType (GetClass (h src)) = Some sc"
    and cd: "GetComponentType (GetClass (h dst)) = Some dc"
    and l: "0 \<le> sint (GetLength (h src))" "0 \<le> sint (GetLength (h dst))"
    and b: "in_bounds (h src) srcPos (h dst) dstPos count"
    and ne: "sc \<noteq> dc"
  shows "((\<exists>s d. fst (System_arraycopy A h (Some src) srcPos (Some dst) dstPos count) =
                   Inl (ArrayStoreException (IncompatibleTypes s d)))
          \<longleftrightarrow> (GetPrimitiveType dc \<noteq> kPrimNot \<or> IsPrimitive sc)) \<and>
         (GetPrimitiveType dc \<noteq> kPrimNot \<or> IsPrimitive sc \<longrightarrow>
            System_arraycopy A h (Some src) srcPos (Some dst) dstPos count =
              (Inl (ArrayStoreException
                      (IncompatibleTypes (PrettyTypeOf (h src)) (PrettyTypeOf (h dst)))), h)) \<and>
         (IsPrimitive dc \<longrightarrow>
            System_arraycopy A h (Some src) srcPos (Some dst) dstPos count =
              (Inl (ArrayStoreException
                      (IncompatibleTypes (PrettyTypeOf (h src)) (PrettyTypeOf (h dst)))), h))"
proof (cases "GetPrimitiveType dc \<noteq> kPrimNot \<or> IsPrimitive sc")
  case True
  then show ?thesis
    using System_arraycopy_incompatible
      [where h = h and src = src and dst = dst and A = A, OF cs cd l b ne]
    by (simp add: IsPrimitive_def)
next
  case ng: False
  let ?R = "System_arraycopy A h (Some src) srcPos (Some dst) dstPos count"
  have "\<not> (\<exists>s d. fst ?R = Inl (ArrayStoreException (IncompatibleTypes s d)))"
  proof (cases "A dc sc")
    case True
    then show ?thesis
      using System_arraycopy_assignable
        [where h = h and src = src and dst = dst and A = A, OF cs cd l b ne] ng
      by simp
  next
    case False
    then have "?R = AssignableCheckingMemcpy A h dst dstPos src srcPos count"
      using System_arraycopy_checking
        [where h = h and src = src and dst = dst and A = A, OF cs cd l b ne] ng
      by simp
    then show ?thesis
      using cd checking_memcpy_slots_result
        [of A dc h dst "nat (sint dstPos)" src "nat (sint srcPos)" "nat (sint count)"]
      by (auto simp: AssignableCheckingMemcpy_def)
  qed
  then show ?thesis using ng by (simp add: IsPrimitive_def)
qed

theorem System_arraycopy_incompatible_gate_witness:
  "System_arraycopy ex_assignable ex_heap (Some 23) 0 (Some 21) 0 1 =
     (Inl (ArrayStoreException (IncompatibleTypes ''java.lang.Object[]'' ''byte[]'')), ex_heap) \<and>
   System_arraycopy ex_assignable ex_heap (Some 21) 0 (Some 26) 0 1 =
     (Inl (ArrayStoreException (IncompatibleTypes ''byte[]'' ''java.lang.Object[]'')), ex_heap) \<and>
   System_arraycopy ex_assignable ex_heap (Some 21) 0 (Some 22) 0 1 =
     (Inl (ArrayStoreException (IncompatibleTypes ''byte[]'' ''int[]'')), ex_heap) \<and>
   (\<forall>s d. fst (System_arraycopy ex_assignable ex_heap (Some 25) 0 (Some 26) 0 2) \<noteq>
      Inl (ArrayStoreException (IncompatibleTypes s d)))"
proof -
  have c: "GetComponentType (GetClass (ex_heap 21)) = Some byteC"
    "GetComponentType (GetClass (ex_heap 22)) = Some intC"
    "GetComponentType (GetClass (ex_heap 23)) = Some ObjectC"
    "GetComponentType (GetClass (ex_heap 25)) = Some IntegerC"
    "GetComponentType (GetClass (ex_heap 26)) = Some ObjectC"
    by (simp_all add: ex_heap_def)
  have l: "0 \<le> sint (GetLength (ex_heap 21))" "0 \<le> sint (GetLength (ex_heap 22))"
    "0 \<le> sint (GetLength (ex_heap 23))" "0 \<le> sint (GetLength (ex_heap 25))"
    "0 \<le> sint (GetLength (ex_heap 26))"
    by (simp_all add: ex_heap_def)
  have b: "in_bounds (ex_heap 23) 0 (ex_heap 21) 0 1" "in_bounds (ex_heap 21) 0 (ex_heap 26) 0 1"
    "in_bounds (ex_heap 21) 0 (ex_heap 22) 0 1" "in_bounds (ex_heap 25) 0 (ex_heap 26) 0 2"
    by (simp_all add: ex_heap_def in_bounds_def)
  have n: "ObjectC \<noteq> byteC" "byteC \<noteq> ObjectC" "byteC \<noteq> intC" "IntegerC \<noteq> ObjectC"
    by (simp_all add: ObjectC_def byteC_def intC_def IntegerC_def)
  have p: "GetPrimitiveType byteC \<noteq> kPrimNot" "IsPrimitive byteC" "GetPrimitiveType intC \<noteq> kPrimNot"
    "\<not> (GetPrimitiveType ObjectC \<noteq> kPrimNot \<or> IsPrimitive IntegerC)"
    by (simp_all add: ObjectC_def byteC_def intC_def IntegerC_def IsPrimitive_def)
  have t: "PrettyTypeOf (ex_heap 21) = ''byte[]''" "PrettyTypeOf (ex_heap 22) = ''int[]''"
    "PrettyTypeOf (ex_heap 23) = ''java.lang.Object[]''"
    "PrettyTypeOf (ex_heap 26) = ''java.lang.Object[]''"
    by (simp_all add: ex_simps)
  show ?thesis
    using System_arraycopy_incompatible_gate [where h = ex_heap and src = 23 and dst = 21
        and A = ex_assignable, OF c(3) c(1) l(3) l(1) b(1) n(1)]
      System_arraycopy_incompatible_gate [where h = ex_heap and src = 21 and dst = 26
        and A = ex_assignable, OF c(1) c(5) l(1) l(5) b(2) n(2)]
      System_arraycopy_incompatible_gate [where h = ex_heap and src = 21 and dst = 22
        and A = ex_assignable, OF c(1) c(2) l(1) l(2) b(3) n(3)]
      System_arraycopy_incompatible_gate [where h = ex_heap and src = 25 and dst = 26
        and A = ex_assignable, OF c(4) c(5) l(4) l(5) b(4) n(4)]
      p
    by (simp add: t)
qed

text \<open>
  Claim C2, as amended. With \<open>count = 0\<close> and positions that pass the bounds check, a
  copy between two well-formed arrays changes nothing in the heap; it succeeds when the
  component types are the same or both are reference types, and it raises the
  ArrayStoreException "Incompatible types" when the component types differ and one of
  them is primitive: the type gate is passed before any element is looked at, whatever
  the count.
\<close>

theorem zero_count_copy:
  assumes ws: "wf_array (h src)" and wd: "wf_array (h dst)"
    and cs: "GetComponentType (GetClass (h src)) = Some sc"
    and cd: "GetComponentType (GetClass (h dst)) = Some dc"
    and b: "in_bounds (h src) srcPos (h dst) dstPos 0"
  shows "snd (System_arraycopy A h (Some src) srcPos (Some dst) dstPos 0) = h \<and>
         fst (System_arraycopy A h (Some src) srcPos (Some dst) dstPos 0) =
           (if sc \<noteq> dc \<and> (GetPrimitiveType dc \<noteq> kPrimNot \<or> IsPrimitive sc)
            then Inl (ArrayStoreException
                        (IncompatibleTypes (PrettyTypeOf (h src)) (PrettyTypeOf (h dst))))
            else Inr ())"
proof -
  note l = wf_array_length [OF ws] wf_array_length [OF wd]
  show ?thesis
  proof (cases "sc = dc")
    case True
    note cs' = cs [unfolded True]
    show ?thesis
    proof (cases "IsPrimitive dc")
      case p: True
      obtain T where "System_arraycopy A h (Some src) srcPos (Some dst) dstPos 0 =
             (Inr (), Memmove T h dst dstPos src srcPos 0)"
        using same_type_primitive [where h = h and src = src and dst = dst and A = A,
            OF cs' cd l b p wf_array_not_void [OF wd cd]] by blast
      then show ?thesis using True by (simp add: Memmove_zero)
    next
      case False
      then show ?thesis
        using same_type_reference [where h = h and src = src and dst = dst and A = A,
            OF cs' cd l b] True
        by (simp add: AssignableMemmove_zero)
    qed
  next
    case ne: False
    show ?thesis
    proof (cases "GetPrimitiveType dc \<noteq> kPrimNot \<or> IsPrimitive sc")
      case True
      then show ?thesis
        using System_arraycopy_incompatible
          [where h = h and src = src and dst = dst and A = A, OF cs cd l b ne] ne
        by simp
    next
      case ng: False
      show ?thesis
      proof (cases "A dc sc")
        case True
        then show ?thesis
          using System_arraycopy_assignable
            [where h = h and src = src and dst = dst and A = A, OF cs cd l b ne] ng
          by (simp add: AssignableMemcpy_zero)
      next
        case False
        then show ?thesis
          using System_arraycopy_checking
            [where h = h and src = src and dst = dst and A = A, OF cs cd l b ne] ng
            AssignableCheckingMemcpy_zero [where h = h and this = dst, OF cd, of A dstPos src srcPos]
          by simp
      qed
    qed
  qed
qed

theorem zero_count_copy_witness:
  "in_bounds (ex_heap 21) 5 (ex_heap 27) 3 0 \<and>
   System_arraycopy ex_assignable ex_heap (Some 21) 5 (Some 27) 3 0 = (Inr (), ex_heap) \<and>
   System_arraycopy ex_assignable ex_heap (Some 23) 0 (Some 24) 0 0 = (Inr (), ex_heap) \<and>
   System_arraycopy ex_assignable ex_heap (Some 21) 0 (Some 22) 0 0 =
     (Inl (ArrayStoreException (IncompatibleTypes ''byte[]'' ''int[]'')), ex_heap)"
proof -
  have b: "in_bounds (ex_heap 21) 5 (ex_heap 27) 3 0" "in_bounds (ex_heap 23) 0 (ex_heap 24) 0 0"
    "in_bounds (ex_heap 21) 0 (ex_heap 22) 0 0"
    by (simp_all add: ex_heap_def in_bounds_def)
  have t: "PrettyTypeOf (ex_heap 21) = ''byte[]''" "PrettyTypeOf (ex_heap 22) = ''int[]''"
    by (simp_all add: ex_simps)
  have p: "GetPrimitiveType NumberC = kPrimNot" "\<not> IsPrimitive ObjectC"
    "GetPrimitiveType intC \<noteq> kPrimNot" "byteC \<noteq> intC"
    by (simp_all add: ex_simps)
  show ?thesis
    using b
      zero_count_copy [where h = ex_heap and src = 21 and dst = 27 and A = ex_assignable,
        OF ex_wf(1) ex_wf(7) ex_component(1) ex_component(7) b(1)]
      zero_count_copy [where h = ex_heap and src = 23 and dst = 24 and A = ex_assignable,
        OF ex_wf(3) ex_wf(4) ex_component(3) ex_component(4) b(2)]
      zero_count_copy [where h = ex_heap and src = 21 and dst = 22 and A = ex_assignable,
        OF ex_wf(1) ex_wf(2) ex_component(1) ex_component(2) b(3)]
    by (simp add: t p prod_eq_iff)
qed

text \<open>
  The claim as stated (success regardless of type compatibility) fails: copying zero
  elements from the byte array to the int array passes the bounds check and raises the
  exception.
\<close>

theorem zero_count_counterexample:
  "wf_array (ex_heap 21) \<and> wf_array (ex_heap 22) \<and> in_bounds (ex_heap 21) 0 (ex_heap 22) 0 0 \<and>
   fst (System_arraycopy ex_assignable ex_heap (Some 21) 0 (Some 22) 0 0) =
     Inl (ArrayStoreException (IncompatibleTypes ''byte[]'' ''int[]''))"
  by (simp add: System_arraycopy_def ex_heap_def byteC_def intC_def in_bounds_def
      IsArrayInstance_def IsPrimitive_def PrettyTypeOf_def)

section \<open>Copies within one array and between arrays\<close>

text \<open>
  Claim C3. Copying a well-formed array onto itself, at any positions and count within
  bounds (overlapping or not), succeeds and leaves the same elements as copying the
  \<open>count\<close> elements through an independent temporary buffer. The elements are the
  groups of 1, 2, 4 or 8 bytes of a primitive array or the slots of a reference array,
  so the statement covers every element size and the reference case. The byte array
  \<open>{1,2,3,4,5}\<close> copied onto itself with \<open>srcPos = 1\<close>, \<open>dstPos = 3\<close>, \<open>count = 2\<close>
  becomes \<open>{1,2,3,2,3}\<close>.
\<close>

theorem self_copy_through_temporary:
  assumes w: "wf_array (h a)" and b: "in_bounds (h a) srcPos (h a) dstPos count"
  shows "fst (System_arraycopy A h (Some a) srcPos (Some a) dstPos count) = Inr () \<and>
         elements_of (snd (System_arraycopy A h (Some a) srcPos (Some a) dstPos count) a) =
           copy_through_temporary (elements_of (h a))
             (nat (sint srcPos)) (nat (sint dstPos)) (nat (sint count))"
proof -
  obtain c where c: "GetComponentType (GetClass (h a)) = Some c"
    using wf_array_component [OF w] by blast
  have "nat (sint srcPos) + nat (sint count) \<le> length (elements_of (h a))"
    and "nat (sint dstPos) + nat (sint count) \<le> length (elements_of (h a))"
    using in_bounds_nat [OF b] by (simp_all add: length_elements_of [OF w])
  then show ?thesis
    using same_type_result(1,3) [where h = h and src = a and dst = a and A = A, OF w w c c b]
    by (simp add: copy_through_temporary_eq)
qed

theorem self_copy_through_temporary_witness:
  "wf_array (ex_heap 21) \<and> in_bounds (ex_heap 21) 1 (ex_heap 21) 3 2 \<and>
   fst (System_arraycopy ex_assignable ex_heap (Some 21) 1 (Some 21) 3 2) = Inr () \<and>
   elements_of (snd (System_arraycopy ex_assignable ex_heap (Some 21) 1 (Some 21) 3 2) 21) =
     [PrimitiveValue [1], PrimitiveValue [2], PrimitiveValue [3],
      PrimitiveValue [2], PrimitiveValue [3]] \<and>
   snd (System_arraycopy ex_assignable ex_heap (Some 21) 1 (Some 21) 3 2) 21 =
     Array byteC 5 (Bytes [1, 2, 3, 2, 3]) \<and>
   elements_of (snd (System_arraycopy ex_assignable ex_heap (Some 22) 0 (Some 22) 1 1) 22) =
     [PrimitiveValue [1, 0, 0, 0], PrimitiveValue [1, 0, 0, 0]] \<and>
   elements_of (snd (System_arraycopy ex_assignable ex_heap (Some 23) 0 (Some 23) 1 3) 23) =
     [Reference (Some 10), Reference (Some 10), Reference (Some 11), Reference (Some 12)]"
proof -
  have b: "in_bounds (ex_heap 21) 1 (ex_heap 21) 3 2" "in_bounds (ex_heap 22) 0 (ex_heap 22) 1 1"
    "in_bounds (ex_heap 23) 0 (ex_heap 23) 1 3"
    by (simp_all add: ex_heap_def in_bounds_def)
  have e: "elements_of (ex_heap 21) =
      [PrimitiveValue [1], PrimitiveValue [2], PrimitiveValue [3],
       PrimitiveValue [4], PrimitiveValue [5]]"
    "elements_of (ex_heap 22) = [PrimitiveValue [1, 0, 0, 0], PrimitiveValue [2, 0, 0, 0]]"
    "elements_of (ex_heap 23) =
      [Reference (Some 10), Reference (Some 11), Reference (Some 12), Reference (Some 13)]"
    by (simp_all add: ex_heap_def byteC_def intC_def eval_nat_numeral)
  have r: "snd (System_arraycopy ex_assignable ex_heap (Some 21) 1 (Some 21) 3 2) 21 =
     Array byteC 5 (Bytes [1, 2, 3, 2, 3])"
    by (simp add: System_arraycopy_def ex_heap_def byteC_def IsArrayInstance_def Memmove_def)
  have n: "nat (sint (0 :: jint)) = 0" "nat (sint (1 :: jint)) = 1"
    "nat (sint (2 :: jint)) = 2" "nat (sint (3 :: jint)) = 3"
    by simp_all
  have c: "copy_through_temporary [x1, x2, x3, x4, x5] 1 3 2 = [x1, x2, x3, x2, x3]"
    "copy_through_temporary [x1, x2] 0 1 1 = [x1, x1]"
    "copy_through_temporary [x1, x2, x3, x4] 0 1 3 = [x1, x1, x2, x3]"
    for x1 x2 x3 x4 x5 :: Element
    by (simp_all add: copy_through_temporary_def eval_nat_numeral)
  note t = self_copy_through_temporary [where h = ex_heap and a = 21 and A = ex_assignable,
        OF ex_wf(1) b(1)]
      self_copy_through_temporary [where h = ex_heap and a = 22 and A = ex_assignable,
        OF ex_wf(2) b(2)]
      self_copy_through_temporary [where h = ex_heap and a = 23 and A = ex_assignable,
        OF ex_wf(3) b(3)]
  have "fst (System_arraycopy ex_assignable ex_heap (Some 21) 1 (Some 21) 3 2) = Inr () \<and>
   elements_of (snd (System_arraycopy ex_assignable ex_heap (Some 21) 1 (Some 21) 3 2) 21) =
     [PrimitiveValue [1], PrimitiveValue [2], PrimitiveValue [3],
      PrimitiveValue [2], PrimitiveValue [3]] \<and>
   elements_of (snd (System_arraycopy ex_assignable ex_heap (Some 22) 0 (Some 22) 1 1) 22) =
     [PrimitiveValue [1, 0, 0, 0], PrimitiveValue [1, 0, 0, 0]] \<and>
   elements_of (snd (System_arraycopy ex_assignable ex_heap (Some 23) 0 (Some 23) 1 3) 23) =
     [Reference (Some 10), Reference (Some 10), Reference (Some 11), Reference (Some 12)]"
    using t by (simp only: e n c)
  with b(1) r ex_wf(1) show ?thesis by (simp only:)
qed

text \<open>
  Claim C8. For a primitive component type \<open>c\<close>, well-formed arrays \<open>src\<close> and \<open>dst\<close>
  (possibly the same) of that component type, and positions and count within bounds, the
  unchecked entry point of the kind of \<open>c\<close> leaves exactly the heap that
  \<^verbatim>\<open>System_arraycopy\<close> leaves on the same arguments, and \<^verbatim>\<open>System_arraycopy\<close> succeeds
  there. That heap differs from the old one in the destination only, whose elements (groups
  of as many bytes as the element size) are those of an overlap-safe move of \<open>count\<close>
  elements.
\<close>

theorem CopyUnchecked_same_type_branch:
  assumes ws: "wf_array (h src)" and wd: "wf_array (h dst)"
    and cs: "GetComponentType (GetClass (h src)) = Some c"
    and cd: "GetComponentType (GetClass (h dst)) = Some c"
    and p: "IsPrimitive c"
    and b: "in_bounds (h src) srcPos (h dst) dstPos count"
  shows "System_arraycopy A h (Some src) srcPos (Some dst) dstPos count =
           (Inr (), CopyUnchecked (GetPrimitiveType c) h (Some src) srcPos (Some dst) dstPos count) \<and>
         elements_of
           (CopyUnchecked (GetPrimitiveType c) h (Some src) srcPos (Some dst) dstPos count dst) =
           bulk_copy (elements_of (h src)) (nat (sint srcPos))
             (elements_of (h dst)) (nat (sint dstPos)) (nat (sint count)) \<and>
         (\<forall>x. x \<noteq> dst \<longrightarrow>
            CopyUnchecked (GetPrimitiveType c) h (Some src) srcPos (Some dst) dstPos count x = h x)"
proof -
  note l = wf_array_length [OF ws] wf_array_length [OF wd]
  have nv: "GetPrimitiveType c \<noteq> kPrimVoid" by (rule wf_array_not_void [OF wd cd])
  have nn: "GetPrimitiveType c \<noteq> kPrimNot" using p by (simp add: IsPrimitive_def)
  obtain T where T: "sizeof_T T = ComponentSize (GetPrimitiveType c)"
    and R: "System_arraycopy A h (Some src) srcPos (Some dst) dstPos count =
              (Inr (), Memmove T h dst dstPos src srcPos count)"
    using same_type_primitive [where h = h and src = src and dst = dst and A = A,
        OF cs cd l b p nv] by blast
  obtain T' where T': "sizeof_T T' = ComponentSize (GetPrimitiveType c)"
    and U: "CopyUnchecked (GetPrimitiveType c) h (Some src) srcPos (Some dst) dstPos count =
              Memmove T' h dst dstPos src srcPos count"
    using CopyUnchecked_Memmove [OF nn nv] by blast
  have eq: "Memmove T' h dst dstPos src srcPos count = Memmove T h dst dstPos src srcPos count"
    by (rule Memmove_sizeof) (simp add: T T')
  show ?thesis
    unfolding R U eq
    using Memmove_target(1) [where h = h and this = dst and src = src, OF wd ws cd cs p T b]
    by (simp add: Memmove_frame)
qed

theorem CopyUnchecked_same_type_branch_witness:
  "wf_array (ex_heap 21) \<and> wf_array (ex_heap 27) \<and> IsPrimitive byteC \<and>
   in_bounds (ex_heap 21) 0 (ex_heap 27) 0 3 \<and>
   System_arraycopy ex_assignable ex_heap (Some 21) 0 (Some 27) 0 3 =
     (Inr (), System_arraycopyByteUnchecked ex_heap (Some 21) 0 (Some 27) 0 3) \<and>
   elements_of (System_arraycopyByteUnchecked ex_heap (Some 21) 0 (Some 27) 0 3 27) =
     [PrimitiveValue [1], PrimitiveValue [2], PrimitiveValue [3]] \<and>
   System_arraycopy ex_assignable ex_heap (Some 22) 0 (Some 22) 1 1 =
     (Inr (), System_arraycopyIntUnchecked ex_heap (Some 22) 0 (Some 22) 1 1) \<and>
   elements_of (System_arraycopyIntUnchecked ex_heap (Some 22) 0 (Some 22) 1 1 22) =
     [PrimitiveValue [1, 0, 0, 0], PrimitiveValue [1, 0, 0, 0]]"
proof -
  have b: "in_bounds (ex_heap 21) 0 (ex_heap 27) 0 3" "in_bounds (ex_heap 22) 0 (ex_heap 22) 1 1"
    by (simp_all add: ex_heap_def in_bounds_def)
  have p: "IsPrimitive byteC" "IsPrimitive intC"
    by (simp_all add: byteC_def intC_def IsPrimitive_def)
  have k: "CopyUnchecked (GetPrimitiveType byteC) = System_arraycopyByteUnchecked"
    "CopyUnchecked (GetPrimitiveType intC) = System_arraycopyIntUnchecked"
    by (simp_all add: byteC_def intC_def)
  have c: "bulk_copy [x1, x2, x3, x4, x5] 0 [y1, y2, y3] 0 3 = [x1, x2, x3]"
    "bulk_copy [x1, x2] 0 [x1, x2] 1 1 = [x1, x1]"
    for x1 x2 x3 x4 x5 y1 y2 y3 :: Element
    by (simp_all add: bulk_copy_def)
  note t = CopyUnchecked_same_type_branch [where h = ex_heap and src = 21 and dst = 27
        and A = ex_assignable, OF ex_wf(1) ex_wf(7) ex_component(1) ex_component(7) p(1) b(1)]
      CopyUnchecked_same_type_branch [where h = ex_heap and src = 22 and dst = 22
        and A = ex_assignable, OF ex_wf(2) ex_wf(2) ex_component(2) ex_component(2) p(2) b(2)]
  have "System_arraycopy ex_assignable ex_heap (Some 21) 0 (Some 27) 0 3 =
     (Inr (), System_arraycopyByteUnchecked ex_heap (Some 21) 0 (Some 27) 0 3) \<and>
   elements_of (System_arraycopyByteUnchecked ex_heap (Some 21) 0 (Some 27) 0 3 27) =
     [PrimitiveValue [1], PrimitiveValue [2], PrimitiveValue [3]] \<and>
   System_arraycopy ex_assignable ex_heap (Some 22) 0 (Some 22) 1 1 =
     (Inr (), System_arraycopyIntUnchecked ex_heap (Some 22) 0 (Some 22) 1 1) \<and>
   elements_of (System_arraycopyIntUnchecked ex_heap (Some 22) 0 (Some 22) 1 1 22) =
     [PrimitiveValue [1, 0, 0, 0], PrimitiveValue [1, 0, 0, 0]]"
    using t by (simp only: k ex_elements ex_nat c)
  with ex_wf(1,7) p(1) b(1) show ?thesis by blast
qed

text \<open>
  Claim C7. For well-formed arrays whose component types differ, are both reference types
  and satisfy \<open>IsAssignableFrom dstComponentType srcComponentType\<close>, and for positions
  and count within bounds, \<^verbatim>\<open>System_arraycopy\<close> succeeds by calling
  \<^verbatim>\<open>AssignableMemcpy\<close> (the copy that does not allow for overlap, not the move); no
  assumption on the classes of the elements is needed, so no element is checked. Afterwards
  \<open>dst[dstPos + i] = src[srcPos + i]\<close> for every \<open>i < count\<close>, the rest of the
  destination is as before, and no other object has changed.
\<close>

theorem assignable_bulk_copy:
  assumes ws: "wf_array (h src)" and wd: "wf_array (h dst)"
    and cs: "GetComponentType (GetClass (h src)) = Some sc"
    and cd: "GetComponentType (GetClass (h dst)) = Some dc"
    and ne: "sc \<noteq> dc" and ps: "\<not> IsPrimitive sc" and pd: "\<not> IsPrimitive dc"
    and a: "A dc sc"
    and b: "in_bounds (h src) srcPos (h dst) dstPos count"
  shows "System_arraycopy A h (Some src) srcPos (Some dst) dstPos count =
           (Inr (), AssignableMemcpy h dst dstPos src srcPos count) \<and>
         elements_of (AssignableMemcpy h dst dstPos src srcPos count dst) =
           bulk_copy (elements_of (h src)) (nat (sint srcPos))
             (elements_of (h dst)) (nat (sint dstPos)) (nat (sint count)) \<and>
         (\<forall>i < nat (sint count).
            GetSlot (AssignableMemcpy h dst dstPos src srcPos count dst) (nat (sint dstPos) + i) =
              GetSlot (h src) (nat (sint srcPos) + i)) \<and>
         (\<forall>x. x \<noteq> dst \<longrightarrow> AssignableMemcpy h dst dstPos src srcPos count x = h x)"
proof -
  note l = wf_array_length [OF ws] wf_array_length [OF wd]
  let ?s = "nat (sint srcPos)" and ?d = "nat (sint dstPos)" and ?c = "nat (sint count)"
  let ?h' = "AssignableMemcpy h dst dstPos src srcPos count"
  have d: "dst \<noteq> src" using cs cd ne by auto
  have pd': "GetPrimitiveType dc = kPrimNot" using pd by (simp add: IsPrimitive_def)
  have R: "System_arraycopy A h (Some src) srcPos (Some dst) dstPos count = (Inr (), ?h')"
    by (rule System_arraycopy_assignable
        [where h = h and src = src and dst = dst and A = A, OF cs cd l b ne pd' ps a])
  note t = memcpy_slots_target [where h = h and this = dst and src = src,
      OF wd ws cd cs pd ps d in_bounds_nat [OF b]]
  have e: "elements_of (?h' dst) =
      bulk_copy (elements_of (h src)) ?s (elements_of (h dst)) ?d ?c"
    using t(1) by (simp add: AssignableMemcpy_def)
  have w': "wf_array (?h' dst)" and c': "GetComponentType (GetClass (?h' dst)) = Some dc"
    using t(2,3) cd by (simp_all add: AssignableMemcpy_def)
  have len': "nat (sint (GetLength (?h' dst))) = nat (sint (GetLength (h dst)))"
    using length_elements_of [OF w'] e in_bounds_nat [OF b]
    by (simp add: bulk_copy_length length_elements_of [OF ws] length_elements_of [OF wd])
  have slots: "GetSlot (?h' dst) (?d + i) = GetSlot (h src) (?s + i)" if i: "i < ?c" for i
  proof -
    have id: "?d + i < nat (sint (GetLength (h dst)))" and "?s + i < nat (sint (GetLength (h src)))"
      using in_bounds_nat [OF b] i by simp_all
    then have "Reference (GetSlot (?h' dst) (?d + i)) = elements_of (?h' dst) ! (?d + i)"
      and "Reference (GetSlot (h src) (?s + i)) = elements_of (h src) ! (?s + i)"
      using GetSlot_elements_of [OF w' c' pd, of "?d + i"]
        GetSlot_elements_of [OF ws cs ps, of "?s + i"]
      by (simp_all add: len' del: GetSlot.simps)
    moreover have "elements_of (?h' dst) ! (?d + i) = elements_of (h src) ! (?s + i)"
      unfolding e
      using bulk_copy_nth [of ?s ?c "elements_of (h src)" ?d "elements_of (h dst)" "?d + i"]
        in_bounds_nat [OF b] i id
      by (simp add: length_elements_of [OF ws] length_elements_of [OF wd])
    ultimately have "Reference (GetSlot (?h' dst) (?d + i)) =
        Reference (GetSlot (h src) (?s + i))"
      by (simp only:)
    then show ?thesis by (simp only: Element.inject)
  qed
  have "\<forall>x. x \<noteq> dst \<longrightarrow> ?h' x = h x"
    by (simp add: AssignableMemcpy_def memcpy_slots_frame)
  with R e slots show ?thesis by blast
qed

theorem assignable_bulk_copy_witness:
  "wf_array (ex_heap 25) \<and> wf_array (ex_heap 26) \<and> IntegerC \<noteq> ObjectC \<and>
   \<not> IsPrimitive IntegerC \<and> \<not> IsPrimitive ObjectC \<and> ex_assignable ObjectC IntegerC \<and>
   in_bounds (ex_heap 25) 0 (ex_heap 26) 0 2 \<and>
   System_arraycopy ex_assignable ex_heap (Some 25) 0 (Some 26) 0 2 =
     (Inr (), AssignableMemcpy ex_heap 26 0 25 0 2) \<and>
   elements_of (AssignableMemcpy ex_heap 26 0 25 0 2 26) =
     [Reference (Some 10), Reference (Some 11)] \<and>
   AssignableMemcpy ex_heap 26 0 25 0 2 25 = ex_heap 25"
proof -
  have b: "in_bounds (ex_heap 25) 0 (ex_heap 26) 0 2"
    by (simp add: ex_heap_def in_bounds_def)
  have p: "IntegerC \<noteq> ObjectC" "\<not> IsPrimitive IntegerC" "\<not> IsPrimitive ObjectC"
    "ex_assignable ObjectC IntegerC"
    by (simp_all add: IntegerC_def ObjectC_def IsPrimitive_def ex_assignable_def)
  have c: "bulk_copy [x1, x2] 0 [y1, y2] 0 2 = [x1, x2]" for x1 x2 y1 y2 :: Element
    by (simp add: bulk_copy_def)
  note t = assignable_bulk_copy [where h = ex_heap and src = 25 and dst = 26
        and A = ex_assignable,
        OF ex_wf(5) ex_wf(6) ex_component(5) ex_component(6) p(1) p(2) p(3) p(4) b]
  have "System_arraycopy ex_assignable ex_heap (Some 25) 0 (Some 26) 0 2 =
     (Inr (), AssignableMemcpy ex_heap 26 0 25 0 2) \<and>
   elements_of (AssignableMemcpy ex_heap 26 0 25 0 2 26) =
     [Reference (Some 10), Reference (Some 11)] \<and>
   AssignableMemcpy ex_heap 26 0 25 0 2 25 = ex_heap 25"
    using t by (simp only: ex_elements ex_nat c)
  with ex_wf(5,6) p b show ?thesis by blast
qed

text \<open>
  Claim C1. In the element-wise checked copy (well-formed arrays, component types that
  differ, both reference types, the destination's not assignable from the source's,
  positions and count within bounds): if the element at index \<open>k < count\<close> of the source
  range is the first one that may not be stored (every earlier one is null or of a class
  assignable to the destination's component type, and this one is an object \<open>a\<close> whose
  class is not), then the copy fails with the ArrayStoreException that names the type of
  \<open>a\<close>, the destination holds the first \<open>k\<close> elements of the source range from
  \<open>dstPos\<close> on and its old elements everywhere else (from \<open>dstPos + k\<close> on as well), and
  no other object has changed.
\<close>

theorem checked_copy_partial_failure:
  assumes ws: "wf_array (h src)" and wd: "wf_array (h dst)"
    and cs: "GetComponentType (GetClass (h src)) = Some sc"
    and cd: "GetComponentType (GetClass (h dst)) = Some dc"
    and ne: "sc \<noteq> dc" and ps: "\<not> IsPrimitive sc" and pd: "\<not> IsPrimitive dc"
    and na: "\<not> A dc sc"
    and b: "in_bounds (h src) srcPos (h dst) dstPos count"
    and k: "k < nat (sint count)"
    and ok: "\<forall>j<k. storable A dc h (GetSlot (h src) (nat (sint srcPos) + j))"
    and bad: "GetSlot (h src) (nat (sint srcPos) + k) = Some a" "\<not> A dc (GetClass (h a))"
  shows "fst (System_arraycopy A h (Some src) srcPos (Some dst) dstPos count) =
           Inl (ArrayStoreException (CannotBeStored (PrettyTypeOf (h a)))) \<and>
         elements_of (snd (System_arraycopy A h (Some src) srcPos (Some dst) dstPos count) dst) =
           bulk_copy (elements_of (h src)) (nat (sint srcPos))
             (elements_of (h dst)) (nat (sint dstPos)) k \<and>
         (\<forall>x. x \<noteq> dst \<longrightarrow>
            snd (System_arraycopy A h (Some src) srcPos (Some dst) dstPos count) x = h x)"
proof -
  let ?s = "nat (sint srcPos)" and ?d = "nat (sint dstPos)" and ?c = "nat (sint count)"
  have d: "dst \<noteq> src" using cs cd ne by auto
  have R: "System_arraycopy A h (Some src) srcPos (Some dst) dstPos count =
      (Inl (ArrayStoreException (CannotBeStored (PrettyTypeOf (h a)))),
       memcpy_slots h dst ?d src ?s k)"
    using different_reference_types_result
      [where h = h and src = src and dst = dst and A = A, OF ws wd cs cd ne ps pd b] na
      checking_memcpy_slots_first_failure
      [where h = h and this = dst and src = src, OF d k ok bad, of ?d]
    by simp
  have sk: "?s + k \<le> nat (sint (GetLength (h src)))"
    and dk: "?d + k \<le> nat (sint (GetLength (h dst)))"
    using in_bounds_nat [OF b] k by simp_all
  show ?thesis
    unfolding R
    using memcpy_slots_target(1)
      [where h = h and this = dst and src = src, OF wd ws cd cs pd ps d sk dk]
    by (simp add: memcpy_slots_frame)
qed

theorem checked_copy_partial_failure_witness:
  "wf_array (ex_heap 23) \<and> wf_array (ex_heap 24) \<and> ObjectC \<noteq> NumberC \<and>
   \<not> IsPrimitive ObjectC \<and> \<not> IsPrimitive NumberC \<and> \<not> ex_assignable NumberC ObjectC \<and>
   in_bounds (ex_heap 23) 0 (ex_heap 24) 0 4 \<and>
   storable ex_assignable NumberC ex_heap (GetSlot (ex_heap 23) 0) \<and>
   storable ex_assignable NumberC ex_heap (GetSlot (ex_heap 23) 1) \<and>
   GetSlot (ex_heap 23) 2 = Some 12 \<and> \<not> ex_assignable NumberC (GetClass (ex_heap 12)) \<and>
   fst (System_arraycopy ex_assignable ex_heap (Some 23) 0 (Some 24) 0 4) =
     Inl (ArrayStoreException (CannotBeStored ''java.lang.String'')) \<and>
   elements_of (snd (System_arraycopy ex_assignable ex_heap (Some 23) 0 (Some 24) 0 4) 24) =
     [Reference (Some 10), Reference (Some 11), Reference None, Reference None] \<and>
   snd (System_arraycopy ex_assignable ex_heap (Some 23) 0 (Some 24) 0 4) 23 = ex_heap 23"
proof -
  have b: "in_bounds (ex_heap 23) 0 (ex_heap 24) 0 4"
    by (simp add: ex_heap_def in_bounds_def)
  have p: "ObjectC \<noteq> NumberC" "\<not> IsPrimitive ObjectC" "\<not> IsPrimitive NumberC"
    "\<not> ex_assignable NumberC ObjectC"
    by (simp_all add: NumberC_def ObjectC_def IntegerC_def IsPrimitive_def ex_assignable_def)
  have s: "storable ex_assignable NumberC ex_heap (GetSlot (ex_heap 23) 0)"
    "storable ex_assignable NumberC ex_heap (GetSlot (ex_heap 23) 1)"
    "GetSlot (ex_heap 23) 2 = Some 12" "\<not> ex_assignable NumberC (GetClass (ex_heap 12))"
    by (simp_all add: ex_heap_def NumberC_def ObjectC_def IntegerC_def IsPrimitive_def
        ex_assignable_def)
  have k: "(2 :: nat) < nat (sint (4 :: jint))" by simp
  have ok: "\<forall>j<2. storable ex_assignable NumberC ex_heap
              (GetSlot (ex_heap 23) (nat (sint (0 :: jint)) + j))"
  proof (intro allI impI)
    fix j :: nat assume "j < 2"
    then have "j = 0 \<or> j = 1" by auto
    then show "storable ex_assignable NumberC ex_heap
              (GetSlot (ex_heap 23) (nat (sint (0 :: jint)) + j))"
      by (auto simp: ex_heap_def NumberC_def ObjectC_def IntegerC_def ex_assignable_def)
  qed
  have bad: "GetSlot (ex_heap 23) (nat (sint (0 :: jint)) + 2) = Some 12"
    by (simp add: ex_heap_def)
  have c: "bulk_copy [x1, x2, x3, x4] 0 [y1, y2, y3, y4] 0 2 = [x1, x2, y3, y4]"
    for x1 x2 x3 x4 y1 y2 y3 y4 :: Element
    by (simp add: bulk_copy_def)
  have ty: "PrettyTypeOf (ex_heap 12) = ''java.lang.String''"
    by (simp add: ex_heap_def PrettyTypeOf_def)
  note t = checked_copy_partial_failure [where h = ex_heap and src = 23 and dst = 24
        and A = ex_assignable and k = 2 and a = 12,
        OF ex_wf(3) ex_wf(4) ex_component(3) ex_component(4) p(1) p(2) p(3) p(4) b k ok bad s(4)]
  have "fst (System_arraycopy ex_assignable ex_heap (Some 23) 0 (Some 24) 0 4) =
     Inl (ArrayStoreException (CannotBeStored ''java.lang.String'')) \<and>
   elements_of (snd (System_arraycopy ex_assignable ex_heap (Some 23) 0 (Some 24) 0 4) 24) =
     [Reference (Some 10), Reference (Some 11), Reference None, Reference None] \<and>
   snd (System_arraycopy ex_assignable ex_heap (Some 23) 0 (Some 24) 0 4) 23 = ex_heap 23"
    using t by (simp only: ex_elements ex_nat c ty)
  with ex_wf(3,4) p b s show ?thesis by blast
qed

text \<open>
  Claim C10. A successful \<^verbatim>\<open>System_arraycopy\<close> between two distinct well-formed arrays
  leaves the source array as it was, and every other object except the destination too;
  the destination keeps its number of elements, and each of its elements outside
  \<open>[dstPos, dstPos + count)\<close> is unchanged.
\<close>

theorem successful_copy_frame:
  assumes ws: "wf_array (h src)" and wd: "wf_array (h dst)"
    and d: "src \<noteq> dst"
    and ok: "fst (System_arraycopy A h (Some src) srcPos (Some dst) dstPos count) = Inr ()"
  shows "snd (System_arraycopy A h (Some src) srcPos (Some dst) dstPos count) src = h src \<and>
         (\<forall>x. x \<noteq> dst \<longrightarrow>
            snd (System_arraycopy A h (Some src) srcPos (Some dst) dstPos count) x = h x) \<and>
         length (elements_of
                   (snd (System_arraycopy A h (Some src) srcPos (Some dst) dstPos count) dst)) =
           length (elements_of (h dst)) \<and>
         (\<forall>i < length (elements_of (h dst)).
            \<not> (nat (sint dstPos) \<le> i \<and> i < nat (sint dstPos) + nat (sint count)) \<longrightarrow>
            elements_of
              (snd (System_arraycopy A h (Some src) srcPos (Some dst) dstPos count) dst) ! i =
              elements_of (h dst) ! i)"
proof -
  note r = successful_copy_result [where h = h and src = src and dst = dst and A = A,
      OF ws wd ok]
  have s: "nat (sint srcPos) + nat (sint count) \<le> length (elements_of (h src))"
    and t: "nat (sint dstPos) + nat (sint count) \<le> length (elements_of (h dst))"
    using in_bounds_nat [OF r(1)]
    by (simp_all add: length_elements_of [OF ws] length_elements_of [OF wd])
  show ?thesis
    unfolding r(2)
    using r(3) d bulk_copy_length [OF s t] bulk_copy_nth [OF s t]
    by simp
qed

theorem successful_copy_frame_witness:
  "wf_array (ex_heap 21) \<and> wf_array (ex_heap 27) \<and> (21 :: addr) \<noteq> 27 \<and>
   fst (System_arraycopy ex_assignable ex_heap (Some 21) 0 (Some 27) 1 2) = Inr () \<and>
   snd (System_arraycopy ex_assignable ex_heap (Some 21) 0 (Some 27) 1 2) 21 = ex_heap 21 \<and>
   snd (System_arraycopy ex_assignable ex_heap (Some 21) 0 (Some 27) 1 2) 27 =
     Array byteC 3 (Bytes [7, 1, 2]) \<and>
   elements_of (snd (System_arraycopy ex_assignable ex_heap (Some 21) 0 (Some 27) 1 2) 27) ! 0 =
     elements_of (ex_heap 27) ! 0"
proof -
  have ok: "fst (System_arraycopy ex_assignable ex_heap (Some 21) 0 (Some 27) 1 2) = Inr ()"
    by (simp add: System_arraycopy_def ex_heap_def byteC_def IsArrayInstance_def)
  have r: "snd (System_arraycopy ex_assignable ex_heap (Some 21) 0 (Some 27) 1 2) 27 =
     Array byteC 3 (Bytes [7, 1, 2])"
    by (simp add: System_arraycopy_def ex_heap_def byteC_def IsArrayInstance_def Memmove_def)
  have d: "(21 :: addr) \<noteq> 27" by simp
  note t = successful_copy_frame [where h = ex_heap and src = 21 and dst = 27
        and A = ex_assignable, OF ex_wf(1) ex_wf(7) d ok]
  have "snd (System_arraycopy ex_assignable ex_heap (Some 21) 0 (Some 27) 1 2) 21 = ex_heap 21"
    using t by simp
  moreover have "elements_of
      (snd (System_arraycopy ex_assignable ex_heap (Some 21) 0 (Some 27) 1 2) 27) ! 0 =
     elements_of (ex_heap 27) ! 0"
    using t by (simp add: ex_elements)
  ultimately show ?thesis using ex_wf(1,7) d ok r by blast
qed

section \<open>Array construction\<close>

text \<open>
  Claim C9. \<^verbatim>\<open>Array_createObjectArray\<close> with a negative length raises
  NegativeArraySizeException carrying the requested length, and leaves the runtime state
  as it was whatever the class linker and the allocator would do to it: the length check
  comes first and neither collaborator is called.
\<close>

theorem createObjectArray_negative_length:
  "sint length' < 0 \<Longrightarrow>
     Array_createObjectArray FindArrayClass Alloc st javaElementClass length' =
       (Inl (NegativeArraySizeException length'), st)"
  by (simp add: Array_createObjectArray_def)

theorem createObjectArray_negative_length_witness:
  "sint (- 1 :: jint) < 0 \<and>
   Array_createObjectArray ex_FindArrayClass ex_Alloc (0, 0) ObjectC (- 1) =
     (Inl (NegativeArraySizeException (- 1)), (0, 0)) \<and>
   Array_createObjectArray ex_FindArrayClass ex_Alloc (0, 0) ObjectC 5 =
     (Inr (Some 20), (1, 1))"
  using createObjectArray_negative_length
    [of "- 1" ex_FindArrayClass ex_Alloc "(0, 0)" ObjectC]
  by (simp add: Array_createObjectArray_def ex_FindArrayClass_def ex_Alloc_def)

end
